theory Spec2Isabelle
  imports Main "HOL-Library.Word"
begin

unbundle bit_operations_syntax

section \<open>The DMA-contig allocator of videobuf2 (videobuf2-dma-contig.c)\<close>

text \<open>
  A shallow embedding of \<^verbatim>\<open>drivers/media/v4l2-core/videobuf2-dma-contig.c\<close>.
  Machine integers are words of the widths of an LP64 kernel with 64-bit DMA addresses:
  \<^verbatim>\<open>unsigned long\<close> and \<^verbatim>\<open>dma_addr_t\<close> are 64 bits, \<^verbatim>\<open>unsigned int\<close> and
  \<^verbatim>\<open>atomic_t\<close> are 32 bits. A pointer that may be \<^verbatim>\<open>NULL\<close> is an \<open>option\<close>.

  The kernel services the file calls (\<^verbatim>\<open>kzalloc\<close>, \<^verbatim>\<open>dma_map_sg\<close>,
  \<^verbatim>\<open>dma_buf_map_attachment\<close>, ...) are not part of the file. What each of them returns in
  a call is an input of the model (an environment record per function), and the calls that
  acquire or release a resource are written to a log, in program order.
\<close>

subsection \<open>Data\<close>

type_synonym dma_addr_t = "64 word"
type_synonym ulong = "64 word"
type_synonym uint = "32 word"
type_synonym atomic_t = "32 word"
type_synonym device = nat

text \<open>\<^verbatim>\<open>enum dma_data_direction\<close>, in the order of its values 0..3.\<close>

datatype dma_data_direction = DMA_BIDIRECTIONAL | DMA_TO_DEVICE | DMA_FROM_DEVICE | DMA_NONE

text \<open>
  A scatterlist entry, as far as the file reads it: \<^verbatim>\<open>sg_dma_address(s)\<close> and
  \<^verbatim>\<open>sg_dma_len(s)\<close>. An \<^verbatim>\<open>sg_table\<close> is the chain \<^verbatim>\<open>sgl\<close> (the empty list is the
  \<^verbatim>\<open>NULL\<close> chain), the number \<^verbatim>\<open>nents\<close> of entries mapped for the device and the
  number \<^verbatim>\<open>orig_nents\<close> of entries allocated.
\<close>

record scatterlist =
  dma_address :: dma_addr_t
  dma_length :: uint

record sg_table =
  sgl :: "scatterlist list"
  nents :: uint
  orig_nents :: uint

text \<open>
  A negative errno, as \<^verbatim>\<open>ERR_PTR(-E)\<close> or \<^verbatim>\<open>return -E\<close> gives it to the caller, is
  \<open>Errno (- E)\<close>. \<open>Oops\<close> is a fault of the kernel itself: a read through \<^verbatim>\<open>NULL\<close>
  or past the end of an array.
\<close>

datatype error = Errno int | Oops

definition EIO :: int where "EIO = 5"
definition ENOMEM :: int where "ENOMEM = 12"
definition EFAULT :: int where "EFAULT = 14"
definition EINVAL :: int where "EINVAL = 22"

subsection \<open>Scatterlist table functions\<close>

text \<open>
  The loop of \<^verbatim>\<open>vb2_dc_get_contiguous_size\<close>:
  \<^verbatim>\<open>for_each_sg(sgt->sgl, s, sgt->nents, i) {
      if (sg_dma_address(s) != expected) break;
      expected = sg_dma_address(s) + sg_dma_len(s);
      size += sg_dma_len(s);
  }\<close>
  The first argument counts the iterations that are left (\<^verbatim>\<open>nents - i\<close>). When entries are
  left to visit and the chain has ended, \<^verbatim>\<open>sg_next\<close> has returned \<^verbatim>\<open>NULL\<close> and the
  body reads through it.
\<close>

fun contiguous_scan :: "nat \<Rightarrow> dma_addr_t \<Rightarrow> ulong \<Rightarrow> scatterlist list \<Rightarrow> error + ulong" where
  "contiguous_scan 0 expected sz ss = Inr sz"
| "contiguous_scan (Suc n) expected sz [] = Inl Oops"
| "contiguous_scan (Suc n) expected sz (s # ss) =
     (if dma_address s \<noteq> expected then Inr sz
      else contiguous_scan n (dma_address s + ucast (dma_length s))
             (sz + ucast (dma_length s)) ss)"

text \<open>
  \<^verbatim>\<open>vb2_dc_get_contiguous_size\<close>: \<^verbatim>\<open>expected\<close> starts at \<^verbatim>\<open>sg_dma_address(sgt->sgl)\<close>,
  read before the loop (a fault when the chain is \<^verbatim>\<open>NULL\<close>), \<^verbatim>\<open>size\<close> at 0.
\<close>

definition vb2_dc_get_contiguous_size :: "sg_table \<Rightarrow> error + ulong" where
  "vb2_dc_get_contiguous_size sgt =
     (case sgl sgt of
        [] \<Rightarrow> Inl Oops
      | s0 # _ \<Rightarrow> contiguous_scan (unat (nents sgt)) (dma_address s0) 0 (sgl sgt))"

text \<open>
  The specification's wording of the same function, for comparison: the run is the longest
  leading part of the table in which every segment's address equals the previous segment's
  end address (\<open>run_prefix\<close>), and its length is the sum of the segments' lengths, as a
  natural number.
\<close>

fun run_prefix :: "scatterlist list \<Rightarrow> scatterlist list" where
  "run_prefix [] = []"
| "run_prefix [s] = [s]"
| "run_prefix (s # t # ss) =
     (if dma_address t = dma_address s + ucast (dma_length s)
      then s # run_prefix (t # ss) else [s])"

definition contiguous_run_length :: "scatterlist list \<Rightarrow> nat" where
  "contiguous_run_length segs = sum_list (map (\<lambda>s. unat (dma_length s)) (run_prefix segs))"

text \<open>
  A list of segments is chained when each segment starts where the one before it ends.
  \<open>run_from e segs\<close> is the run's length when the table's first segment starts at \<open>e\<close>,
  and 0 otherwise: the loop's result for an arbitrary value of \<^verbatim>\<open>expected\<close>.
\<close>

fun chained :: "scatterlist list \<Rightarrow> bool" where
  "chained (s # t # ss) =
     (dma_address t = dma_address s + ucast (dma_length s) \<and> chained (t # ss))"
| "chained ss = True"

definition run_from :: "dma_addr_t \<Rightarrow> scatterlist list \<Rightarrow> nat" where
  "run_from e segs =
     (case segs of [] \<Rightarrow> 0
      | s # _ \<Rightarrow> if dma_address s = e then contiguous_run_length segs else 0)"

text \<open>A segment \<open>(address, length)\<close> of the specification's examples.\<close>

definition seg :: "dma_addr_t \<Rightarrow> uint \<Rightarrow> scatterlist" where
  "seg a l = \<lparr>dma_address = a, dma_length = l\<rparr>"

subsection \<open>Buffers, attachments and the log of kernel calls\<close>

text \<open>
  \<^verbatim>\<open>struct frame_vector\<close>, as far as the file reads it: the frame numbers
  \<^verbatim>\<open>frame_vector_pfns(vec)\<close>; \<^verbatim>\<open>frame_vector_count(vec)\<close> is their number.
\<close>

record frame_vector =
  frame_pfns :: "ulong list"

text \<open>\<^verbatim>\<open>struct dma_buf\<close> (its size and flags) and \<^verbatim>\<open>struct dma_buf_attachment\<close>.\<close>

record dma_buf =
  dbuf_size :: ulong
  dbuf_flags :: ulong

record dma_buf_attachment =
  att_dmabuf :: dma_buf
  att_dev :: "device option"

record vb2_dc_conf =
  conf_dev :: "device option"

text \<open>
  \<^verbatim>\<open>struct vb2_dc_buf\<close>. The field \<^verbatim>\<open>size\<close> is \<open>size_bytes\<close> here. The
  \<^verbatim>\<open>handler\<close> field only points back at the buffer's own \<^verbatim>\<open>refcount\<close> and at
  \<^verbatim>\<open>vb2_dc_put\<close>, and is left out.
\<close>

record vb2_dc_buf =
  dev :: "device option"
  vaddr :: "ulong option"
  size_bytes :: ulong
  dma_addr :: dma_addr_t
  dma_dir :: dma_data_direction
  dma_sgt :: "sg_table option"
  vec :: "frame_vector option"
  refcount :: atomic_t
  sgt_base :: "sg_table option"
  db_attach :: "dma_buf_attachment option"

text \<open>What \<^verbatim>\<open>kzalloc(sizeof *buf, GFP_KERNEL)\<close> returns: every field zero.\<close>

definition zeroed_buf :: vb2_dc_buf where
  "zeroed_buf =
     \<lparr>dev = None, vaddr = None, size_bytes = 0, dma_addr = 0, dma_dir = DMA_BIDIRECTIONAL,
      dma_sgt = None, vec = None, refcount = 0, sgt_base = None, db_attach = None\<rparr>"

text \<open>
  The log. An event is a call that acquired a resource (a call that fails acquires nothing
  and is not logged: the returned error tells of it), a call that releases one, or a
  warning raised by \<^verbatim>\<open>WARN_ON\<close>.
\<close>

datatype event =
    Kzalloc_buf | Kfree_buf
  | Create_framevec | Destroy_framevec
  | Kzalloc_sgt | Kfree_sgt
  | Sg_alloc_table | Sg_free_table
  | Dma_map_sg dma_data_direction | Dma_unmap_sg dma_data_direction
  | Dma_alloc_coherent | Dma_free_coherent
  | Get_device | Put_device
  | Kmalloc_sgt | Dma_get_sgtable
  | Dma_buf_export
  | Dma_buf_attach | Dma_buf_detach
  | Dma_buf_map_attachment dma_data_direction | Dma_buf_unmap_attachment dma_data_direction
  | Dma_buf_vunmap
  | Warn_on

fun is_acquire :: "event \<Rightarrow> bool" where
  "is_acquire Kzalloc_buf = True"
| "is_acquire Create_framevec = True"
| "is_acquire Kzalloc_sgt = True"
| "is_acquire Sg_alloc_table = True"
| "is_acquire (Dma_map_sg d) = True"
| "is_acquire Dma_alloc_coherent = True"
| "is_acquire Get_device = True"
| "is_acquire Kmalloc_sgt = True"
| "is_acquire Dma_get_sgtable = True"
| "is_acquire Dma_buf_export = True"
| "is_acquire Dma_buf_attach = True"
| "is_acquire (Dma_buf_map_attachment d) = True"
| "is_acquire e = False"

text \<open>The call that gives back what an acquiring call obtained.\<close>

fun release_of :: "event \<Rightarrow> event" where
  "release_of Kzalloc_buf = Kfree_buf"
| "release_of Create_framevec = Destroy_framevec"
| "release_of Kzalloc_sgt = Kfree_sgt"
| "release_of Sg_alloc_table = Sg_free_table"
| "release_of (Dma_map_sg d) = Dma_unmap_sg d"
| "release_of Dma_alloc_coherent = Dma_free_coherent"
| "release_of Get_device = Put_device"
| "release_of Kmalloc_sgt = Kfree_sgt"
| "release_of Dma_get_sgtable = Sg_free_table"
| "release_of Dma_buf_attach = Dma_buf_detach"
| "release_of (Dma_buf_map_attachment d) = Dma_buf_unmap_attachment d"
| "release_of e = e"

text \<open>
  A log is rolled back when it is a run of acquisitions followed by exactly their releases,
  in the reverse order: nothing acquired is left behind.
\<close>

definition rolled_back :: "event list \<Rightarrow> bool" where
  "rolled_back evs =
     (let acq = takeWhile is_acquire evs in evs = acq @ map release_of (rev acq))"

subsection \<open>Callbacks for MMAP buffers\<close>

text \<open>
  \<^verbatim>\<open>vb2_dc_put\<close>: \<^verbatim>\<open>atomic_dec_and_test\<close> decrements and tells whether the counter has
  reached zero; then the buffer is torn down and freed (\<open>None\<close>).
\<close>

definition vb2_dc_put :: "vb2_dc_buf \<Rightarrow> vb2_dc_buf option \<times> event list" where
  "vb2_dc_put buf =
     (let buf1 = buf\<lparr>refcount := refcount buf - 1\<rparr> in
      if refcount buf1 \<noteq> 0 then (Some buf1, [])
      else (None,
            (if sgt_base buf1 \<noteq> None then [Sg_free_table, Kfree_sgt] else [])
            @ [Dma_free_coherent, Put_device, Kfree_buf]))"

text \<open>
  \<^verbatim>\<open>vb2_dc_alloc\<close>. The environment says whether \<^verbatim>\<open>kzalloc\<close> succeeds and what
  \<^verbatim>\<open>dma_alloc_coherent\<close> returns: \<open>None\<close> for \<^verbatim>\<open>NULL\<close>, else the CPU address and
  the DMA handle. (The \<^verbatim>\<open>gfp_flags\<close> argument is only passed on to the allocator.)
\<close>

record alloc_env =
  ae_kzalloc_buf :: bool
  ae_dma_alloc_coherent :: "(ulong \<times> dma_addr_t) option"

definition vb2_dc_alloc ::
  "alloc_env \<Rightarrow> vb2_dc_conf \<Rightarrow> ulong \<Rightarrow> dma_data_direction \<Rightarrow> (error + vb2_dc_buf) \<times> event list" where
  "vb2_dc_alloc env conf sz dir =
     (if \<not> ae_kzalloc_buf env then (Inl (Errno (- ENOMEM)), [])
      else case ae_dma_alloc_coherent env of
        None \<Rightarrow> (Inl (Errno (- ENOMEM)), [Kzalloc_buf, Kfree_buf])
      | Some (va, da) \<Rightarrow>
          (Inr (zeroed_buf\<lparr>vaddr := Some va, dma_addr := da, dev := conf_dev conf,
                  size_bytes := sz, dma_dir := dir, refcount := refcount zeroed_buf + 1\<rparr>),
           [Kzalloc_buf, Dma_alloc_coherent, Get_device]))"

subsection \<open>DMABUF operations for exporters\<close>

text \<open>
  \<^verbatim>\<open>struct vb2_dc_attachment\<close>: the exporter's copy of the scatterlist for one attachment
  and the direction it is mapped for (\<open>DMA_NONE\<close> when it is not mapped).
\<close>

record vb2_dc_attachment =
  att_sgt :: sg_table
  att_dma_dir :: dma_data_direction

text \<open>
  \<^verbatim>\<open>vb2_dc_dmabuf_ops_map\<close>. The environment is what \<^verbatim>\<open>dma_map_sg\<close> would return if
  it were called: the number of mapped entries (0 on failure) and the chain with its DMA
  fields filled in. The conversion of the \<^verbatim>\<open>int\<close> result to the \<^verbatim>\<open>unsigned int\<close>
  field \<^verbatim>\<open>nents\<close> is \<open>word_of_int\<close>. The function runs under the dma-buf's mutex; the
  model is sequential.
\<close>

record map_sg_env =
  me_dma_map_sg :: "int \<times> scatterlist list"

definition vb2_dc_dmabuf_ops_map ::
  "map_sg_env \<Rightarrow> vb2_dc_attachment \<Rightarrow> dma_data_direction
     \<Rightarrow> (error + sg_table) \<times> vb2_dc_attachment \<times> event list" where
  "vb2_dc_dmabuf_ops_map env attach dir =
     (if att_dma_dir attach = dir then (Inr (att_sgt attach), attach, [])
      else
        let (attach1, evs1) =
              (if att_dma_dir attach \<noteq> DMA_NONE
               then (attach\<lparr>att_dma_dir := DMA_NONE\<rparr>, [Dma_unmap_sg (att_dma_dir attach)])
               else (attach, []));
            (ret, chain) = me_dma_map_sg env;
            sgt = (att_sgt attach1)\<lparr>sgl := chain, nents := word_of_int ret\<rparr>;
            attach2 = attach1\<lparr>att_sgt := sgt\<rparr>
        in if nents sgt = 0 then (Inl (Errno (- EIO)), attach2, evs1)
           else (Inr sgt, attach2\<lparr>att_dma_dir := dir\<rparr>, evs1 @ [Dma_map_sg dir]))"

text \<open>
  \<^verbatim>\<open>vb2_dc_dmabuf_ops_release\<close> drops the reference obtained in \<^verbatim>\<open>vb2_dc_get_dmabuf\<close>;
  its argument is the buffer \<^verbatim>\<open>dbuf->priv\<close>.
\<close>

definition vb2_dc_dmabuf_ops_release :: "vb2_dc_buf \<Rightarrow> vb2_dc_buf option \<times> event list" where
  "vb2_dc_dmabuf_ops_release buf = vb2_dc_put buf"

text \<open>
  \<^verbatim>\<open>vb2_dc_get_base_sgt\<close> and \<^verbatim>\<open>vb2_dc_get_dmabuf\<close>. The environment says whether
  \<^verbatim>\<open>kmalloc\<close> succeeds, what \<^verbatim>\<open>dma_get_sgtable\<close> returns (its code, negative on
  failure, and the table) and whether \<^verbatim>\<open>dma_buf_export\<close> succeeds. A failed export
  returns \<^verbatim>\<open>NULL\<close> (\<open>None\<close>).
\<close>

record export_env =
  xe_kmalloc_sgt :: bool
  xe_dma_get_sgtable :: "int \<times> sg_table"
  xe_dma_buf_export :: bool

definition vb2_dc_get_base_sgt :: "export_env \<Rightarrow> vb2_dc_buf \<Rightarrow> sg_table option \<times> event list" where
  "vb2_dc_get_base_sgt env buf =
     (if \<not> xe_kmalloc_sgt env then (None, [])
      else let (ret, sgt) = xe_dma_get_sgtable env in
        if ret < 0 then (None, [Kmalloc_sgt, Kfree_sgt])
        else (Some sgt, [Kmalloc_sgt, Dma_get_sgtable]))"

definition vb2_dc_get_dmabuf ::
  "export_env \<Rightarrow> vb2_dc_buf \<Rightarrow> ulong \<Rightarrow> dma_buf option \<times> vb2_dc_buf \<times> event list" where
  "vb2_dc_get_dmabuf env buf flags =
     (let (base, evs1) =
            (if sgt_base buf = None then vb2_dc_get_base_sgt env buf else (sgt_base buf, []));
          buf1 = buf\<lparr>sgt_base := base\<rparr>
      in if sgt_base buf1 = None then (None, buf1, evs1 @ [Warn_on])
         else if \<not> xe_dma_buf_export env then (None, buf1, evs1)
         else (Some \<lparr>dbuf_size = size_bytes buf1, dbuf_flags = flags\<rparr>,
               buf1\<lparr>refcount := refcount buf1 + 1\<rparr>,
               evs1 @ [Dma_buf_export]))"

text \<open>
  A number of exports, each followed by the release of the handle it returned. The result
  is \<open>None\<close> when an export fails or when the buffer is gone.
\<close>

fun export_release_rounds :: "export_env list \<Rightarrow> ulong \<Rightarrow> vb2_dc_buf \<Rightarrow> vb2_dc_buf option" where
  "export_release_rounds [] flags buf = Some buf"
| "export_release_rounds (env # envs) flags buf =
     (case vb2_dc_get_dmabuf env buf flags of
        (None, _, _) \<Rightarrow> None
      | (Some dbuf, buf1, _) \<Rightarrow>
          (case vb2_dc_dmabuf_ops_release buf1 of
             (None, _) \<Rightarrow> None
           | (Some buf2, _) \<Rightarrow> export_release_rounds envs flags buf2))"

text \<open>Whether the export of \<open>buf\<close> succeeds in the environment \<open>env\<close>.\<close>

definition export_succeeds :: "export_env \<Rightarrow> vb2_dc_buf \<Rightarrow> bool" where
  "export_succeeds env buf =
     ((sgt_base buf \<noteq> None \<or> (xe_kmalloc_sgt env \<and> 0 \<le> fst (xe_dma_get_sgtable env)))
      \<and> xe_dma_buf_export env)"

subsection \<open>Callbacks for USERPTR buffers\<close>

text \<open>
  The platform: \<^verbatim>\<open>dma_get_cache_alignment()\<close> and the conversion of a frame number to a
  DMA address, which the file takes from whichever of \<^verbatim>\<open>__arch_pfn_to_dma\<close>,
  \<^verbatim>\<open>__pfn_to_bus\<close>, \<^verbatim>\<open>__pfn_to_phys\<close> the architecture defines, or else from a shift by
  \<^verbatim>\<open>PAGE_SHIFT\<close>.
\<close>

record platform =
  dma_get_cache_alignment :: ulong
  vb2_dc_pfn_to_dma :: "device option \<Rightarrow> ulong \<Rightarrow> dma_addr_t"

text \<open>\<^verbatim>\<open>IS_ALIGNED(x, a)\<close> is \<^verbatim>\<open>(((x) & ((typeof(x))(a) - 1)) == 0)\<close>.\<close>

definition IS_ALIGNED :: "ulong \<Rightarrow> ulong \<Rightarrow> bool" where
  "IS_ALIGNED x a = (x AND (a - 1) = 0)"

text \<open>
  The check of the fallback path,
  \<^verbatim>\<open>for (i = 1; i < n_pages; i++) if (nums[i-1] + 1 != nums[i]) goto fail_pfnvec;\<close>
  passes when every frame number is its predecessor's plus one.
\<close>

fun pfns_contiguous :: "ulong list \<Rightarrow> bool" where
  "pfns_contiguous (a # b # nums) = (a + 1 = b \<and> pfns_contiguous (b # nums))"
| "pfns_contiguous nums = True"

text \<open>
  The environment of \<^verbatim>\<open>vb2_dc_get_userptr\<close>: whether \<^verbatim>\<open>kzalloc\<close> gives the descriptor;
  what \<^verbatim>\<open>vb2_create_framevec\<close> returns (an error pointer's code, or the vector); what
  \<^verbatim>\<open>frame_vector_to_pages\<close> returns (negative when the frames have no pages); whether
  \<^verbatim>\<open>kzalloc\<close> gives the table's storage; what \<^verbatim>\<open>sg_alloc_table_from_pages\<close> returns
  (its code and the table it has built from the pages, the in-page offset and the size);
  and what \<^verbatim>\<open>dma_map_sg_attrs\<close> returns (the number of mapped entries and the chain with
  its DMA fields filled in).
\<close>

record userptr_env =
  ue_kzalloc_buf :: bool
  ue_create_framevec :: "int + frame_vector"
  ue_frame_vector_to_pages :: int
  ue_kzalloc_sgt :: bool
  ue_sg_alloc_table_from_pages :: "int \<times> sg_table"
  ue_dma_map_sg_attrs :: "int \<times> scatterlist list"

text \<open>The error labels of \<^verbatim>\<open>vb2_dc_get_userptr\<close>; each falls through to the next.\<close>

definition fail_buf :: "event list" where
  "fail_buf = [Kfree_buf]"

definition fail_pfnvec :: "event list" where
  "fail_pfnvec = Destroy_framevec # fail_buf"

definition fail_sgt :: "event list" where
  "fail_sgt = Kfree_sgt # fail_pfnvec"

definition fail_sgt_init :: "event list" where
  "fail_sgt_init = Sg_free_table # fail_sgt"

definition fail_map_sg :: "dma_data_direction \<Rightarrow> event list" where
  "fail_map_sg dir = Dma_unmap_sg dir # fail_sgt_init"

definition vb2_dc_get_userptr ::
  "platform \<Rightarrow> userptr_env \<Rightarrow> vb2_dc_conf \<Rightarrow> ulong \<Rightarrow> ulong \<Rightarrow> dma_data_direction
     \<Rightarrow> (error + vb2_dc_buf) \<times> event list" where
  "vb2_dc_get_userptr plat env conf uaddr sz dir =
     (if \<not> IS_ALIGNED (uaddr OR sz) (dma_get_cache_alignment plat)
      then (Inl (Errno (- EINVAL)), [])
      else if sz = 0 then (Inl (Errno (- EINVAL)), [])
      else if \<not> ue_kzalloc_buf env then (Inl (Errno (- ENOMEM)), [])
      else
        let buf = zeroed_buf\<lparr>dev := conf_dev conf, dma_dir := dir\<rparr> in
        case ue_create_framevec env of
          Inl e \<Rightarrow> (Inl (Errno e), [Kzalloc_buf] @ fail_buf)
        | Inr fv \<Rightarrow>
            let buf = buf\<lparr>vec := Some fv\<rparr>;
                ret = ue_frame_vector_to_pages env
            in
            if ret < 0 then
              (if \<not> pfns_contiguous (frame_pfns fv)
               then (Inl (Errno ret), [Kzalloc_buf, Create_framevec] @ fail_pfnvec)
               else case frame_pfns fv of
                 [] \<Rightarrow> (Inl Oops, [Kzalloc_buf, Create_framevec])
               | n0 # _ \<Rightarrow>
                   (Inr (buf\<lparr>dma_addr := vb2_dc_pfn_to_dma plat (dev buf) n0, size_bytes := sz\<rparr>),
                    [Kzalloc_buf, Create_framevec]))
            else if \<not> ue_kzalloc_sgt env
            then (Inl (Errno (- ENOMEM)), [Kzalloc_buf, Create_framevec] @ fail_pfnvec)
            else
              let (ret, sgt) = ue_sg_alloc_table_from_pages env in
              if ret \<noteq> 0
              then (Inl (Errno ret), [Kzalloc_buf, Create_framevec, Kzalloc_sgt] @ fail_sgt)
              else
                let (cnt, chain) = ue_dma_map_sg_attrs env;
                    sgt = sgt\<lparr>sgl := chain, nents := word_of_int cnt\<rparr>
                in
                if nents sgt \<le> 0
                then (Inl (Errno (- EIO)),
                      [Kzalloc_buf, Create_framevec, Kzalloc_sgt, Sg_alloc_table] @ fail_sgt_init)
                else
                  case vb2_dc_get_contiguous_size sgt of
                    Inl fault \<Rightarrow>
                      (Inl fault,
                       [Kzalloc_buf, Create_framevec, Kzalloc_sgt, Sg_alloc_table, Dma_map_sg dir])
                  | Inr contig_size \<Rightarrow>
                      if contig_size < sz
                      then (Inl (Errno (- EFAULT)),
                            [Kzalloc_buf, Create_framevec, Kzalloc_sgt, Sg_alloc_table,
                             Dma_map_sg dir] @ fail_map_sg dir)
                      else
                        (case sgl sgt of
                           [] \<Rightarrow>
                             (Inl Oops,
                              [Kzalloc_buf, Create_framevec, Kzalloc_sgt, Sg_alloc_table,
                               Dma_map_sg dir])
                         | s0 # _ \<Rightarrow>
                             (Inr (buf\<lparr>dma_addr := dma_address s0, dma_sgt := Some sgt,
                                     size_bytes := sz\<rparr>),
                              [Kzalloc_buf, Create_framevec, Kzalloc_sgt, Sg_alloc_table,
                               Dma_map_sg dir])))"

subsection \<open>Callbacks for DMABUF buffers\<close>

text \<open>
  \<^verbatim>\<open>vb2_dc_map_dmabuf\<close>. The environment is what \<^verbatim>\<open>dma_buf_map_attachment\<close> returns: an
  error pointer's code, or the exporter's table. \<^verbatim>\<open>return 0\<close> is \<open>Inr ()\<close>.
\<close>

definition vb2_dc_map_dmabuf ::
  "(int + sg_table) \<Rightarrow> vb2_dc_buf \<Rightarrow> (error + unit) \<times> vb2_dc_buf \<times> event list" where
  "vb2_dc_map_dmabuf dma_buf_map_attachment buf =
     (if db_attach buf = None then (Inl (Errno (- EINVAL)), buf, [Warn_on])
      else if dma_sgt buf \<noteq> None then (Inr (), buf, [Warn_on])
      else case dma_buf_map_attachment of
        Inl e \<Rightarrow> (Inl (Errno (- EINVAL)), buf, [])
      | Inr sgt \<Rightarrow>
          (case vb2_dc_get_contiguous_size sgt of
             Inl fault \<Rightarrow> (Inl fault, buf, [Dma_buf_map_attachment (dma_dir buf)])
           | Inr contig_size \<Rightarrow>
               if contig_size < size_bytes buf
               then (Inl (Errno (- EFAULT)), buf,
                     [Dma_buf_map_attachment (dma_dir buf),
                      Dma_buf_unmap_attachment (dma_dir buf)])
               else
                 (case sgl sgt of
                    [] \<Rightarrow> (Inl Oops, buf, [Dma_buf_map_attachment (dma_dir buf)])
                  | s0 # _ \<Rightarrow>
                      (Inr (),
                       buf\<lparr>dma_addr := dma_address s0, dma_sgt := Some sgt, vaddr := None\<rparr>,
                       [Dma_buf_map_attachment (dma_dir buf)]))))"

text \<open>\<^verbatim>\<open>vb2_dc_unmap_dmabuf\<close> returns nothing; the model returns the buffer and the log.\<close>

definition vb2_dc_unmap_dmabuf :: "vb2_dc_buf \<Rightarrow> vb2_dc_buf \<times> event list" where
  "vb2_dc_unmap_dmabuf buf =
     (if db_attach buf = None then (buf, [Warn_on])
      else if dma_sgt buf = None then (buf, [Warn_on])
      else
        ((buf\<lparr>vaddr := None, dma_addr := 0, dma_sgt := None\<rparr>),
         (if vaddr buf \<noteq> None then [Dma_buf_vunmap] else [])
         @ [Dma_buf_unmap_attachment (dma_dir buf)]))"

text \<open>
  \<^verbatim>\<open>vb2_dc_attach_dmabuf\<close>. The environment says whether \<^verbatim>\<open>kzalloc\<close> succeeds and what
  \<^verbatim>\<open>dma_buf_attach\<close> returns: an error pointer's code, which is passed on, or the
  attachment.
\<close>

record attach_env =
  te_kzalloc_buf :: bool
  te_dma_buf_attach :: "int + dma_buf_attachment"

definition vb2_dc_attach_dmabuf ::
  "attach_env \<Rightarrow> vb2_dc_conf \<Rightarrow> dma_buf \<Rightarrow> ulong \<Rightarrow> dma_data_direction
     \<Rightarrow> (error + vb2_dc_buf) \<times> event list" where
  "vb2_dc_attach_dmabuf env conf dbuf sz dir =
     (if dbuf_size dbuf < sz then (Inl (Errno (- EFAULT)), [])
      else if \<not> te_kzalloc_buf env then (Inl (Errno (- ENOMEM)), [])
      else case te_dma_buf_attach env of
        Inl e \<Rightarrow> (Inl (Errno e), [Kzalloc_buf, Kfree_buf])
      | Inr dba \<Rightarrow>
          (Inr (zeroed_buf\<lparr>dev := conf_dev conf, dma_dir := dir, size_bytes := sz,
                  db_attach := Some dba\<rparr>),
           [Kzalloc_buf, Dma_buf_attach]))"

subsection \<open>The outcomes of pinning a user region\<close>

text \<open>
  The table \<^verbatim>\<open>vb2_dc_get_userptr\<close> works on once \<^verbatim>\<open>dma_map_sg_attrs\<close> has returned: the
  table of \<^verbatim>\<open>sg_alloc_table_from_pages\<close> with the mapped chain and count.
\<close>

definition mapped_table :: "userptr_env \<Rightarrow> sg_table" where
  "mapped_table env =
     (snd (ue_sg_alloc_table_from_pages env))
       \<lparr>sgl := snd (ue_dma_map_sg_attrs env),
        nents := word_of_int (fst (ue_dma_map_sg_attrs env))\<rparr>"

text \<open>
  What the kernel guarantees about its answers: a frame vector that was created holds at
  least one frame, and a table of which \<^verbatim>\<open>nents\<close> entries are mapped has a chain of at
  least \<^verbatim>\<open>nents\<close> entries.
\<close>

definition userptr_env_wf :: "userptr_env \<Rightarrow> bool" where
  "userptr_env_wf env =
     ((case ue_create_framevec env of Inl e \<Rightarrow> True | Inr fv \<Rightarrow> frame_pfns fv \<noteq> [])
      \<and> (nents (mapped_table env) = 0
          \<or> (sgl (mapped_table env) \<noteq> []
              \<and> unat (nents (mapped_table env)) \<le> length (sgl (mapped_table env)))))"

text \<open>What has been acquired, in order, when the table is mapped for the device.\<close>

definition acquired_for_table :: "dma_data_direction \<Rightarrow> event list" where
  "acquired_for_table dir =
     [Kzalloc_buf, Create_framevec, Kzalloc_sgt, Sg_alloc_table, Dma_map_sg dir]"

type_synonym userptr_result = "(error + vb2_dc_buf) \<times> event list"

text \<open>
  How far the kernel's answers let the call get. \<open>pinned_frames\<close> is the frame vector the
  call holds once the descriptor is allocated and the frames are pinned. The direct path is
  open when the frames have no pages and their numbers are contiguous. The table is mapped
  when the pages resolve, the table's storage is allocated, the table is built and
  \<^verbatim>\<open>dma_map_sg_attrs\<close> maps at least one entry. \<open>contiguous_for\<close> tells whether the mapped
  table's contiguous size covers the requested size.
\<close>

definition pinned_frames :: "userptr_env \<Rightarrow> frame_vector option" where
  "pinned_frames env =
     (if ue_kzalloc_buf env
      then (case ue_create_framevec env of Inl e \<Rightarrow> None | Inr fv \<Rightarrow> Some fv)
      else None)"

definition direct_path :: "userptr_env \<Rightarrow> bool" where
  "direct_path env =
     (case pinned_frames env of
        None \<Rightarrow> False
      | Some fv \<Rightarrow> ue_frame_vector_to_pages env < 0 \<and> pfns_contiguous (frame_pfns fv))"

definition table_mapped :: "userptr_env \<Rightarrow> bool" where
  "table_mapped env =
     (pinned_frames env \<noteq> None \<and> 0 \<le> ue_frame_vector_to_pages env \<and> ue_kzalloc_sgt env
      \<and> fst (ue_sg_alloc_table_from_pages env) = 0 \<and> nents (mapped_table env) \<noteq> 0)"

definition contiguous_for :: "userptr_env \<Rightarrow> ulong \<Rightarrow> bool" where
  "contiguous_for env sz =
     (case vb2_dc_get_contiguous_size (mapped_table env) of
        Inl fault \<Rightarrow> False
      | Inr contig_size \<Rightarrow> sz \<le> contig_size)"

text \<open>
  The four outcomes of a call that has passed the checks of alignment and size. Each one
  names its cause in the kernel's answers and what the call returns and logs.

  (1) Direct: page resolution failed and the frame numbers are contiguous; the returned
  buffer holds the pinned frames, has the device address made from the first frame number
  and no segment table.
\<close>

definition outcome_direct :: "platform \<Rightarrow> userptr_env \<Rightarrow> ulong \<Rightarrow> userptr_result \<Rightarrow> bool" where
  "outcome_direct plat env sz res =
     (case res of
        (Inr buf, evs) \<Rightarrow>
          direct_path env \<and> vec buf = pinned_frames env
          \<and> dma_sgt buf = None \<and> size_bytes buf = sz
          \<and> (case vec buf of
                None \<Rightarrow> False
              | Some fv \<Rightarrow>
                  (case frame_pfns fv of
                     [] \<Rightarrow> False
                   | n0 # _ \<Rightarrow> dma_addr buf = vb2_dc_pfn_to_dma plat (dev buf) n0))
          \<and> evs = [Kzalloc_buf, Create_framevec]
      | (Inl e, evs) \<Rightarrow> False)"

text \<open>
  (2) Table: the pages resolved, the table was built and mapped and its contiguous size is
  at least the requested size; the returned buffer holds the pinned frames, carries that
  table and starts at its first device address.
\<close>

definition outcome_table :: "userptr_env \<Rightarrow> ulong \<Rightarrow> dma_data_direction \<Rightarrow> userptr_result \<Rightarrow> bool" where
  "outcome_table env sz dir res =
     (case res of
        (Inr buf, evs) \<Rightarrow>
          table_mapped env \<and> contiguous_for env sz \<and> vec buf = pinned_frames env
          \<and> size_bytes buf = sz
          \<and> (case dma_sgt buf of
                None \<Rightarrow> False
              | Some sgt \<Rightarrow>
                  sgt = mapped_table env
                  \<and> (case sgl sgt of
                        [] \<Rightarrow> False
                      | s0 # _ \<Rightarrow> dma_addr buf = dma_address s0))
          \<and> evs = acquired_for_table dir
      | (Inl e, evs) \<Rightarrow> False)"

text \<open>
  (3) Contiguity violation: the table was built and mapped and its contiguous size is below
  the requested size; the call fails with \<open>-EFAULT\<close> after unmapping the table, freeing
  it and its storage, releasing the frames and freeing the descriptor.
\<close>

definition outcome_contiguity_violation ::
  "userptr_env \<Rightarrow> ulong \<Rightarrow> dma_data_direction \<Rightarrow> userptr_result \<Rightarrow> bool" where
  "outcome_contiguity_violation env sz dir res =
     (table_mapped env
      \<and> (case vb2_dc_get_contiguous_size (mapped_table env) of
            Inl fault \<Rightarrow> False
          | Inr contig_size \<Rightarrow> contig_size < sz)
      \<and> res = (Inl (Errno (- EFAULT)),
               acquired_for_table dir
               @ [Dma_unmap_sg dir, Sg_free_table, Kfree_sgt, Destroy_framevec, Kfree_buf])
      \<and> rolled_back (snd res))"

text \<open>
  (4) Early failure: the call fails before the table is mapped for the device, and what it
  had acquired has been released in reverse order. Each error code has its cause:
  \<open>-ENOMEM\<close> with nothing acquired when the descriptor cannot be allocated; the code of
  \<^verbatim>\<open>vb2_create_framevec\<close> when the frames cannot be pinned; the code of
  \<^verbatim>\<open>frame_vector_to_pages\<close> when the frames have no pages and are not contiguous;
  \<open>-ENOMEM\<close> when the pages resolve and the table's storage cannot be allocated; the
  code of \<^verbatim>\<open>sg_alloc_table_from_pages\<close> when the table cannot be built; and \<open>-EIO\<close>
  when the table is built and \<^verbatim>\<open>dma_map_sg_attrs\<close> maps no entry.
\<close>

definition outcome_early_failure ::
  "userptr_env \<Rightarrow> dma_data_direction \<Rightarrow> userptr_result \<Rightarrow> bool" where
  "outcome_early_failure env dir res =
     (case res of
        (Inl (Errno e), evs) \<Rightarrow>
          rolled_back evs \<and> Dma_map_sg dir \<notin> set evs
          \<and> (if \<not> ue_kzalloc_buf env then e = - ENOMEM \<and> evs = []
              else case ue_create_framevec env of
                Inl c \<Rightarrow> e = c \<and> evs = [Kzalloc_buf, Kfree_buf]
              | Inr fv \<Rightarrow>
                  if ue_frame_vector_to_pages env < 0
                  then \<not> pfns_contiguous (frame_pfns fv)
                       \<and> e = ue_frame_vector_to_pages env
                       \<and> evs = [Kzalloc_buf, Create_framevec, Destroy_framevec, Kfree_buf]
                  else if \<not> ue_kzalloc_sgt env
                  then e = - ENOMEM
                       \<and> evs = [Kzalloc_buf, Create_framevec, Destroy_framevec, Kfree_buf]
                  else if fst (ue_sg_alloc_table_from_pages env) \<noteq> 0
                  then e = fst (ue_sg_alloc_table_from_pages env)
                       \<and> evs = [Kzalloc_buf, Create_framevec, Kzalloc_sgt, Kfree_sgt,
                                Destroy_framevec, Kfree_buf]
                  else nents (mapped_table env) = 0
                       \<and> e = - EIO
                       \<and> evs = [Kzalloc_buf, Create_framevec, Kzalloc_sgt, Sg_alloc_table,
                                Sg_free_table, Kfree_sgt, Destroy_framevec, Kfree_buf])
      | (Inl Oops, evs) \<Rightarrow> False
      | (Inr buf, evs) \<Rightarrow> False)"

definition pin_outcomes ::
  "platform \<Rightarrow> userptr_env \<Rightarrow> ulong \<Rightarrow> dma_data_direction \<Rightarrow> (userptr_result \<Rightarrow> bool) list" where
  "pin_outcomes plat env sz dir =
     [outcome_direct plat env sz, outcome_table env sz dir,
      outcome_contiguity_violation env sz dir, outcome_early_failure env dir]"

subsection \<open>Example values\<close>

text \<open>
  A table of two chained pages at the device addresses 4096 and 8192; an attachment to a
  shared buffer of 8192 bytes; the descriptor \<^verbatim>\<open>vb2_dc_attach_dmabuf\<close> returns for it;
  and that descriptor once \<^verbatim>\<open>vb2_dc_map_dmabuf\<close> has mapped the table.
\<close>

definition example_table :: sg_table where
  "example_table = \<lparr>sgl = [seg 4096 4096, seg 8192 4096], nents = 2, orig_nents = 2\<rparr>"

definition example_attachment :: dma_buf_attachment where
  "example_attachment = \<lparr>att_dmabuf = \<lparr>dbuf_size = 8192, dbuf_flags = 0\<rparr>, att_dev = Some 0\<rparr>"

definition attached_buf :: vb2_dc_buf where
  "attached_buf =
     zeroed_buf\<lparr>dev := Some 0, dma_dir := DMA_FROM_DEVICE, size_bytes := 8192,
                db_attach := Some example_attachment\<rparr>"

definition mapped_buf :: vb2_dc_buf where
  "mapped_buf = attached_buf\<lparr>dma_addr := 4096, dma_sgt := Some example_table\<rparr>"

text \<open>
  The exporter's cache for one attachment, mapped for \<open>DMA_TO_DEVICE\<close>; a buffer as
  \<^verbatim>\<open>vb2_dc_alloc\<close> returns it, with the reference count 1; and an environment in which
  an export succeeds.
\<close>

definition example_attach_cache :: vb2_dc_attachment where
  "example_attach_cache = \<lparr>att_sgt = example_table, att_dma_dir = DMA_TO_DEVICE\<rparr>"

definition allocated_buf :: vb2_dc_buf where
  "allocated_buf =
     zeroed_buf\<lparr>vaddr := Some 1048576, dma_addr := 4096, dev := Some 0, size_bytes := 8192,
                dma_dir := DMA_FROM_DEVICE, refcount := 1\<rparr>"

definition export_ok_env :: export_env where
  "export_ok_env =
     \<lparr>xe_kmalloc_sgt = True, xe_dma_get_sgtable = (0, example_table), xe_dma_buf_export = True\<rparr>"

text \<open>
  A platform with the cache alignment 8 and 4096-byte pages whose DMA addresses are the
  physical ones; a context; and the environments of a request that pins the two frames 16
  and 17, given what \<^verbatim>\<open>frame_vector_to_pages\<close> and \<^verbatim>\<open>dma_map_sg_attrs\<close> return.
\<close>

definition example_platform :: platform where
  "example_platform =
     \<lparr>dma_get_cache_alignment = 8, vb2_dc_pfn_to_dma = (\<lambda>d pfn. push_bit 12 pfn)\<rparr>"

definition example_conf :: vb2_dc_conf where
  "example_conf = \<lparr>conf_dev = Some 0\<rparr>"

definition pin_env :: "int \<Rightarrow> int \<times> scatterlist list \<Rightarrow> userptr_env" where
  "pin_env to_pages mapped =
     \<lparr>ue_kzalloc_buf = True,
      ue_create_framevec = Inr \<lparr>frame_pfns = [16, 17]\<rparr>,
      ue_frame_vector_to_pages = to_pages,
      ue_kzalloc_sgt = True,
      ue_sg_alloc_table_from_pages = (0, \<lparr>sgl = [seg 0 0, seg 0 0], nents = 2, orig_nents = 2\<rparr>),
      ue_dma_map_sg_attrs = mapped\<rparr>"

section \<open>Properties\<close>

subsection \<open>The contiguous size of a table\<close>

text \<open>
  \<open>run_prefix\<close> is what the specification describes: a leading part of the table, chained,
  and the longest such.
\<close>

lemma run_prefix_is_prefix: "take (length (run_prefix segs)) segs = run_prefix segs"
  by (induction segs rule: run_prefix.induct) simp_all

lemma run_prefix_chained: "chained (run_prefix segs)"
proof (induction segs rule: run_prefix.induct)
  case (3 s t ss)
  then show ?case by (cases ss) (auto split: if_splits)
qed simp_all

lemma run_prefix_longest:
  "k \<le> length segs \<Longrightarrow> chained (take k segs) \<Longrightarrow> k \<le> length (run_prefix segs)"
proof (induction segs arbitrary: k rule: run_prefix.induct)
  case 1
  then show ?case by simp
next
  case (2 s)
  then show ?case by simp
next
  case (3 s t ss)
  show ?case
  proof (cases k)
    case 0
    then show ?thesis by simp
  next
    case (Suc k')
    show ?thesis
    proof (cases k')
      case 0
      with Suc show ?thesis by simp
    next
      case (Suc k'')
      with \<open>k = Suc k'\<close> "3.prems" have
        c: "dma_address t = dma_address s + ucast (dma_length s)"
        and ch: "chained (take k' (t # ss))" and le: "k' \<le> length (t # ss)"
        by simp_all
      from "3.IH" [OF c le ch] c \<open>k = Suc k'\<close> show ?thesis by simp
    qed
  qed
qed

text \<open>A 32-bit length, widened to 64 bits, keeps its value; it is below \<open>2 ^ 32\<close>.\<close>

lemma unat_ucast_len: "unat (ucast (l :: uint) :: ulong) = unat l"
  by (simp add: unsigned_ucast_eq take_bit_nat_eq_self_iff)
     (rule less_trans [OF unsigned_less], simp)

lemma unat_len_bound: "unat (l :: uint) \<le> 2 ^ 32 - 1"
  using unsigned_less [of l, where 'a = nat] by simp

lemma contiguous_scan_numeral:
  "contiguous_scan (numeral k) e sz (s # ss) =
     (if dma_address s \<noteq> e then Inr sz
      else contiguous_scan (pred_numeral k) (dma_address s + ucast (dma_length s))
             (sz + ucast (dma_length s)) ss)"
  "contiguous_scan (numeral k) e sz [] = Inl Oops"
  by (simp_all only: numeral_eq_Suc contiguous_scan.simps)

lemma run_length_Cons:
  "contiguous_run_length (s # segs) =
     unat (dma_length s) + run_from (dma_address s + ucast (dma_length s)) segs"
  by (cases segs) (simp_all add: contiguous_run_length_def run_from_def)

text \<open>
  The loop, started with any \<^verbatim>\<open>expected\<close> and \<^verbatim>\<open>size\<close>: as long as the accumulated size
  cannot wrap around in 64 bits and the chain holds the entries to visit, it returns the
  size it started with plus the length of the run.
\<close>

lemma scan_sum:
  "unat sz + n * (2 ^ 32 - 1) < 2 ^ 64 \<Longrightarrow> n \<le> length ss \<Longrightarrow>
   \<exists>r. contiguous_scan n e sz ss = Inr r \<and> unat r = unat sz + run_from e (take n ss)"
proof (induction n e sz ss rule: contiguous_scan.induct)
  case (1 expected sz ss)
  then show ?case by (simp add: run_from_def)
next
  case (2 n expected sz)
  then show ?case by simp
next
  case (3 n expected sz s ss)
  let ?l = "dma_length s"
  show ?case
  proof (cases "dma_address s = expected")
    case False
    then show ?thesis by (simp add: run_from_def)
  next
    case True
    have le: "unat ?l \<le> 2 ^ 32 - 1" by (rule unat_len_bound)
    from "3.prems"(1) le have noov: "unat sz + unat ?l < 2 ^ 64" by simp
    have eq: "unat (sz + ucast ?l) = unat sz + unat ?l"
      using noov unat_add_lem [of sz "ucast ?l"] by (simp add: unat_ucast_len)
    from "3.prems"(1) le have b: "unat (sz + ucast ?l) + n * (2 ^ 32 - 1) < 2 ^ 64"
      by (simp add: eq)
    from "3.prems"(2) have n: "n \<le> length ss" by simp
    from "3.IH" [OF _ b n] True obtain r where
      r: "contiguous_scan n (dma_address s + ucast ?l) (sz + ucast ?l) ss = Inr r"
         "unat r = unat (sz + ucast ?l) + run_from (dma_address s + ucast ?l) (take n ss)"
      by auto
    have "run_from expected (take (Suc n) (s # ss)) =
          unat ?l + run_from (dma_address s + ucast ?l) (take n ss)"
      using True by (simp add: run_from_def [of expected] run_length_Cons)
    with r True show ?thesis by (simp add: eq)
  qed
qed

text \<open>
  On a table whose chain is not \<^verbatim>\<open>NULL\<close> and holds at least \<^verbatim>\<open>nents\<close> entries,
  \<^verbatim>\<open>vb2_dc_get_contiguous_size\<close> returns, and what it returns is the specification's run
  length of the \<^verbatim>\<open>nents\<close> mapped entries. (\<^verbatim>\<open>nents\<close> is below \<open>2 ^ 32\<close> and so is every
  length: the 64-bit sum cannot wrap around.)
\<close>

lemma get_contiguous_size_refines:
  assumes "sgl t \<noteq> []" "unat (nents t) \<le> length (sgl t)"
  shows "\<exists>r. vb2_dc_get_contiguous_size t = Inr r \<and>
             unat r = contiguous_run_length (take (unat (nents t)) (sgl t))"
proof -
  from assms(1) obtain s0 rest where s: "sgl t = s0 # rest" by (cases "sgl t") auto
  have "unat (nents t) \<le> 2 ^ 32 - 1"
    using unsigned_less [of "nents t", where 'a = nat] by simp
  then have "unat (nents t) * (2 ^ 32 - 1) \<le> (2 ^ 32 - 1) * (2 ^ 32 - 1)"
    by (rule mult_le_mono1)
  then have b: "unat (0 :: ulong) + unat (nents t) * (2 ^ 32 - 1) < 2 ^ 64" by simp
  from scan_sum [OF b assms(2), of "dma_address s0"] obtain r where
    r: "contiguous_scan (unat (nents t)) (dma_address s0) 0 (sgl t) = Inr r"
       "unat r = run_from (dma_address s0) (take (unat (nents t)) (sgl t))"
    by auto
  have "run_from (dma_address s0) (take (unat (nents t)) (sgl t)) =
        contiguous_run_length (take (unat (nents t)) (sgl t))"
    by (cases "unat (nents t)") (simp_all add: s run_from_def contiguous_run_length_def)
  with r show ?thesis by (simp add: vb2_dc_get_contiguous_size_def s)
qed

text \<open>
  Claim C4. \<^verbatim>\<open>vb2_dc_get_contiguous_size\<close> scans the segments in order, starting from the
  first segment's device address, and sums the lengths while each segment's address equals
  the previous segment's end address: on every table with a chain of at least \<^verbatim>\<open>nents\<close>
  entries it returns the specification's \<open>contiguous_run_length\<close> of the mapped entries.
  Over \<open>[(A,10), (A+10,20), (A+40,5)]\<close> it returns 30 and over the overlapping
  \<open>[(A,10), (A+5,20)]\<close> it returns 10, for every address \<open>A\<close>.
\<close>

theorem contiguous_size_is_run_length:
  "(sgl t \<noteq> [] \<and> unat (nents t) \<le> length (sgl t) \<longrightarrow>
      (\<exists>r. vb2_dc_get_contiguous_size t = Inr r \<and>
           unat r = contiguous_run_length (take (unat (nents t)) (sgl t))))
   \<and> vb2_dc_get_contiguous_size
        \<lparr>sgl = [seg A 10, seg (A + 10) 20, seg (A + 40) 5], nents = 3, orig_nents = 3\<rparr> = Inr 30
   \<and> vb2_dc_get_contiguous_size
        \<lparr>sgl = [seg A 10, seg (A + 5) 20], nents = 2, orig_nents = 2\<rparr> = Inr 10"
proof (intro conjI impI)
  assume "sgl t \<noteq> [] \<and> unat (nents t) \<le> length (sgl t)"
  then show "\<exists>r. vb2_dc_get_contiguous_size t = Inr r \<and>
                 unat r = contiguous_run_length (take (unat (nents t)) (sgl t))"
    using get_contiguous_size_refines [of t] by simp
next
  show "vb2_dc_get_contiguous_size
          \<lparr>sgl = [seg A 10, seg (A + 10) 20, seg (A + 40) 5], nents = 3, orig_nents = 3\<rparr> = Inr 30"
    by (simp add: vb2_dc_get_contiguous_size_def seg_def contiguous_scan_numeral)
next
  show "vb2_dc_get_contiguous_size
          \<lparr>sgl = [seg A 10, seg (A + 5) 20], nents = 2, orig_nents = 2\<rparr> = Inr 10"
    by (simp add: vb2_dc_get_contiguous_size_def seg_def contiguous_scan_numeral)
qed

text \<open>
  The theorem at a table of four segments of which the first three are chained:
  \<open>[(4096,4096), (8192,4096), (12288,100), (65536,4096)]\<close> has the run length 8292.
\<close>

theorem contiguous_size_is_run_length_witness:
  "vb2_dc_get_contiguous_size
     \<lparr>sgl = [seg 4096 4096, seg 8192 4096, seg 12288 100, seg 65536 4096],
      nents = 4, orig_nents = 4\<rparr> = Inr 8292
   \<and> contiguous_run_length
       [seg 4096 4096, seg 8192 4096, seg 12288 100, seg 65536 4096] = 8292"
proof -
  let ?t = "\<lparr>sgl = [seg 4096 4096, seg 8192 4096, seg 12288 100, seg 65536 4096],
             nents = 4, orig_nents = 4\<rparr>"
  have len: "contiguous_run_length
       [seg 4096 4096, seg 8192 4096, seg 12288 100, seg 65536 4096] = 8292"
    by (simp add: contiguous_run_length_def seg_def)
  have pre: "sgl ?t \<noteq> [] \<and> unat (nents ?t) \<le> length (sgl ?t)" by simp
  from contiguous_size_is_run_length [of ?t] pre obtain r where
    r: "vb2_dc_get_contiguous_size ?t = Inr r"
       "unat r = contiguous_run_length (take (unat (nents ?t)) (sgl ?t))"
    by blast
  from r(2) len have u: "unat r = 8292" by simp
  have "r = of_nat (unat r)" by simp
  also have "\<dots> = 8292" by (simp only: u) simp
  finally have "r = 8292" .
  with r(1) len show ?thesis by simp
qed

text \<open>
  Claim C10, as amended. On a table with at least one mapped entry (and a chain that holds
  the \<^verbatim>\<open>nents\<close> entries), \<^verbatim>\<open>vb2_dc_get_contiguous_size\<close> always counts the first
  segment: the result is at least the first segment's length, however discontiguous the
  other segments are. Consequently the result is not zero when the first segment's length
  is not zero.
\<close>

theorem first_segment_counted:
  assumes "sgl t = s # rest" "nents t \<noteq> 0" "unat (nents t) \<le> length (sgl t)"
  shows "\<exists>r. vb2_dc_get_contiguous_size t = Inr r \<and> ucast (dma_length s) \<le> r \<and>
             (dma_length s \<noteq> 0 \<longrightarrow> r \<noteq> 0)"
proof -
  from assms(1) have ne: "sgl t \<noteq> []" by simp
  from get_contiguous_size_refines [OF ne assms(3)] obtain r where
    r: "vb2_dc_get_contiguous_size t = Inr r"
       "unat r = contiguous_run_length (take (unat (nents t)) (sgl t))"
    by blast
  from assms(2) have "unat (nents t) \<noteq> 0" by (simp add: unat_eq_0)
  then obtain m where m: "unat (nents t) = Suc m" by (cases "unat (nents t)") auto
  from r(2) have "unat (dma_length s) \<le> unat r"
    by (simp add: m assms(1) run_length_Cons)
  then have le: "ucast (dma_length s) \<le> r"
    by (simp add: word_le_nat_alt unat_ucast_len)
  have "dma_length s \<noteq> 0 \<Longrightarrow> r \<noteq> 0"
  proof
    assume "dma_length s \<noteq> 0" "r = 0"
    with \<open>unat (dma_length s) \<le> unat r\<close> show False by (simp add: unat_eq_0)
  qed
  with r(1) le show ?thesis by blast
qed

text \<open>The theorem at a table of two segments that are far apart: the first one is counted.\<close>

theorem first_segment_counted_witness:
  "vb2_dc_get_contiguous_size
     \<lparr>sgl = [seg 4096 512, seg 65536 512], nents = 2, orig_nents = 2\<rparr> = Inr 512"
proof -
  let ?t = "\<lparr>sgl = [seg 4096 512, seg 65536 512], nents = 2, orig_nents = 2\<rparr>"
  have "sgl ?t = seg 4096 512 # [seg 65536 512]" "nents ?t \<noteq> 0"
       "unat (nents ?t) \<le> length (sgl ?t)"
    by simp_all
  from first_segment_counted [OF this] obtain r where
    "vb2_dc_get_contiguous_size ?t = Inr r" "ucast (dma_length (seg 4096 512)) \<le> r"
    by blast
  moreover have "vb2_dc_get_contiguous_size ?t = Inr 512"
    by (simp add: vb2_dc_get_contiguous_size_def seg_def contiguous_scan_numeral)
  ultimately show ?thesis by simp
qed

text \<open>
  The claim as it was stated (the result is never zero on a table that is not empty) fails
  on a table whose first segment has the length 0 and whose second segment does not follow
  it: the function returns 0.
\<close>

theorem zero_length_first_segment_counterexample:
  "vb2_dc_get_contiguous_size
     \<lparr>sgl = [seg 4096 0, seg 65536 512], nents = 2, orig_nents = 2\<rparr> = Inr 0"
  by (simp add: vb2_dc_get_contiguous_size_def seg_def contiguous_scan_numeral)

subsection \<open>Mapping an imported buffer\<close>

lemma example_table_contiguous_size: "vb2_dc_get_contiguous_size example_table = Inr 8192"
  by (simp add: example_table_def vb2_dc_get_contiguous_size_def seg_def contiguous_scan_numeral)

text \<open>
  Claim C1, as amended. For every imported buffer that is already mapped (attached, its
  segment table present), \<^verbatim>\<open>vb2_dc_map_dmabuf\<close> called again is not rejected: it raises
  a warning and returns 0, without asking the exporter for a table, and leaves the buffer
  (its device address and segment table among the rest) unchanged.
\<close>

theorem map_dmabuf_already_mapped:
  "db_attach buf \<noteq> None \<Longrightarrow> dma_sgt buf \<noteq> None \<Longrightarrow>
   vb2_dc_map_dmabuf menv buf = (Inr (), buf, [Warn_on])"
  by (simp add: vb2_dc_map_dmabuf_def)

theorem map_dmabuf_already_mapped_witness:
  "vb2_dc_map_dmabuf (Inl (- ENOMEM)) mapped_buf = (Inr (), mapped_buf, [Warn_on])"
proof -
  have "db_attach mapped_buf \<noteq> None" "dma_sgt mapped_buf \<noteq> None"
    by (simp_all add: mapped_buf_def attached_buf_def)
  then show ?thesis by (rule map_dmabuf_already_mapped)
qed

text \<open>
  The claim as it was stated (the second map is rejected with an error) fails on the mapped
  example buffer: the call returns 0, which is no error.
\<close>

theorem double_map_accepted_counterexample:
  "fst (vb2_dc_map_dmabuf (Inr example_table) mapped_buf) = Inr ()
   \<and> \<not> isl (fst (vb2_dc_map_dmabuf (Inr example_table) mapped_buf))"
  by (simp add: vb2_dc_map_dmabuf_def mapped_buf_def attached_buf_def)

text \<open>
  Claim C9. For every imported buffer that is attached and not mapped, whenever
  \<^verbatim>\<open>vb2_dc_map_dmabuf\<close> fails the descriptor is left exactly as it was: the segment table
  stays absent and the device address is untouched, so the map can be tried again. It fails
  with \<open>-EINVAL\<close> when the request for the exporter's table fails, and with \<open>-EFAULT\<close>,
  after giving the table back, when the contiguous run is shorter than the buffer's size.
\<close>

theorem map_dmabuf_failure_keeps_descriptor:
  assumes "db_attach buf \<noteq> None" "dma_sgt buf = None"
  shows "(\<forall>e buf' evs. vb2_dc_map_dmabuf menv buf = (Inl e, buf', evs) \<longrightarrow>
            buf' = buf \<and> dma_sgt buf' = None \<and> dma_addr buf' = dma_addr buf)
         \<and> (\<forall>c. menv = Inl c \<longrightarrow>
               vb2_dc_map_dmabuf menv buf = (Inl (Errno (- EINVAL)), buf, []))
         \<and> (\<forall>sgt contig. menv = Inr sgt \<and> vb2_dc_get_contiguous_size sgt = Inr contig
                 \<and> contig < size_bytes buf \<longrightarrow>
               vb2_dc_map_dmabuf menv buf =
                 (Inl (Errno (- EFAULT)), buf,
                  [Dma_buf_map_attachment (dma_dir buf), Dma_buf_unmap_attachment (dma_dir buf)]))"
  using assms
  by (auto simp: vb2_dc_map_dmabuf_def split: sum.splits list.splits if_splits)

text \<open>
  The theorem at the attached example buffer: a failed request and a table whose run of
  4096 bytes is too short both leave it as it was, and a later map with the exporter's
  good table succeeds.
\<close>

theorem map_dmabuf_failure_keeps_descriptor_witness:
  "vb2_dc_map_dmabuf (Inl (- ENOMEM)) attached_buf = (Inl (Errno (- EINVAL)), attached_buf, [])
   \<and> vb2_dc_map_dmabuf (Inr \<lparr>sgl = [seg 4096 4096, seg 65536 4096], nents = 2, orig_nents = 2\<rparr>)
        attached_buf =
       (Inl (Errno (- EFAULT)), attached_buf,
        [Dma_buf_map_attachment DMA_FROM_DEVICE, Dma_buf_unmap_attachment DMA_FROM_DEVICE])
   \<and> vb2_dc_map_dmabuf (Inr example_table) attached_buf =
       (Inr (), mapped_buf, [Dma_buf_map_attachment DMA_FROM_DEVICE])"
proof -
  let ?bad = "\<lparr>sgl = [seg 4096 4096, seg 65536 4096], nents = 2, orig_nents = 2\<rparr>"
  have pre: "db_attach attached_buf \<noteq> None" "dma_sgt attached_buf = None"
    by (simp_all add: attached_buf_def zeroed_buf_def)
  have c: "vb2_dc_get_contiguous_size ?bad = Inr 4096"
    by (simp add: vb2_dc_get_contiguous_size_def seg_def contiguous_scan_numeral)
  have s: "(4096 :: ulong) < size_bytes attached_buf" "dma_dir attached_buf = DMA_FROM_DEVICE"
    by (simp_all add: attached_buf_def)
  note main = map_dmabuf_failure_keeps_descriptor [OF pre]
  have 1: "vb2_dc_map_dmabuf (Inl (- ENOMEM)) attached_buf =
       (Inl (Errno (- EINVAL)), attached_buf, [])"
    using main [of "Inl (- ENOMEM)"] by blast
  have 2: "vb2_dc_map_dmabuf (Inr ?bad) attached_buf =
       (Inl (Errno (- EFAULT)), attached_buf,
        [Dma_buf_map_attachment DMA_FROM_DEVICE, Dma_buf_unmap_attachment DMA_FROM_DEVICE])"
    using main [of "Inr ?bad"] c s by auto
  have 3: "vb2_dc_map_dmabuf (Inr example_table) attached_buf =
       (Inr (), mapped_buf, [Dma_buf_map_attachment DMA_FROM_DEVICE])"
    by (simp add: vb2_dc_map_dmabuf_def example_table_contiguous_size)
       (simp add: attached_buf_def mapped_buf_def example_table_def zeroed_buf_def seg_def)
  from 1 2 3 show ?thesis by simp
qed

subsection \<open>Allocation\<close>

text \<open>
  Claim C2, as amended. \<^verbatim>\<open>vb2_dc_alloc\<close> has no check of the size: for every context,
  size (0 included) and direction it never fails with \<open>-EINVAL\<close>. It fails only with
  \<open>-ENOMEM\<close>, when the descriptor or the coherent memory cannot be obtained, and then
  leaves nothing allocated; otherwise it returns a buffer of the requested size with the
  reference count 1, the device address the allocator gave, and a reference to the device.
\<close>

theorem alloc_never_invalid_argument:
  "fst (vb2_dc_alloc env conf sz dir) \<noteq> Inl (Errno (- EINVAL))
   \<and> (case vb2_dc_alloc env conf sz dir of
         (Inl e, evs) \<Rightarrow>
           e = Errno (- ENOMEM) \<and> rolled_back evs
           \<and> (\<not> ae_kzalloc_buf env \<or> ae_dma_alloc_coherent env = None)
       | (Inr buf, evs) \<Rightarrow>
           size_bytes buf = sz \<and> refcount buf = 1 \<and> dma_dir buf = dir
           \<and> dev buf = conf_dev conf
           \<and> (\<exists>va. vaddr buf = Some va \<and> ae_dma_alloc_coherent env = Some (va, dma_addr buf))
           \<and> evs = [Kzalloc_buf, Dma_alloc_coherent, Get_device])"
  by (auto simp: vb2_dc_alloc_def zeroed_buf_def rolled_back_def EINVAL_def ENOMEM_def
           split: option.splits)

text \<open>The theorem at the size 0, when the allocator gives memory: a buffer is returned.\<close>

theorem alloc_never_invalid_argument_witness:
  "vb2_dc_alloc \<lparr>ae_kzalloc_buf = True, ae_dma_alloc_coherent = Some (1048576, 4096)\<rparr>
     \<lparr>conf_dev = Some 0\<rparr> 0 DMA_FROM_DEVICE =
   (Inr (zeroed_buf\<lparr>vaddr := Some 1048576, dma_addr := 4096, dev := Some 0,
                     dma_dir := DMA_FROM_DEVICE, refcount := 1\<rparr>),
    [Kzalloc_buf, Dma_alloc_coherent, Get_device])"
  using alloc_never_invalid_argument
    [of "\<lparr>ae_kzalloc_buf = True, ae_dma_alloc_coherent = Some (1048576, 4096)\<rparr>"
        "\<lparr>conf_dev = Some 0\<rparr>" 0 DMA_FROM_DEVICE]
  by (simp add: vb2_dc_alloc_def zeroed_buf_def)

text \<open>
  The claim as it was stated (a request of size 0 fails with \<open>-EINVAL\<close> before any memory
  is obtained) fails when the allocator has no memory for the request: the descriptor has
  been allocated and is freed again, and the error is \<open>-ENOMEM\<close>.
\<close>

theorem alloc_zero_size_counterexample:
  "vb2_dc_alloc \<lparr>ae_kzalloc_buf = True, ae_dma_alloc_coherent = None\<rparr>
     \<lparr>conf_dev = Some 0\<rparr> 0 DMA_FROM_DEVICE =
   (Inl (Errno (- ENOMEM)), [Kzalloc_buf, Kfree_buf])
   \<and> Errno (- ENOMEM) \<noteq> Errno (- EINVAL)"
  by (simp add: vb2_dc_alloc_def ENOMEM_def EINVAL_def)

subsection \<open>Attaching a shared buffer\<close>

text \<open>
  Claim C8, as amended. \<^verbatim>\<open>vb2_dc_attach_dmabuf\<close> checks that the shared buffer's size is
  at least the requested size and fails with \<open>-EFAULT\<close> (not \<open>-EINVAL\<close>), allocating
  nothing, when the shared buffer is smaller. When it succeeds, the returned buffer records
  the attachment, the size and the direction and is not mapped: its device address is 0 and
  it has no segment table. It succeeds whenever the size fits, the descriptor can be
  allocated and \<^verbatim>\<open>dma_buf_attach\<close> gives an attachment.
\<close>

theorem attach_dmabuf_checks_size:
  "(dbuf_size dbuf < sz \<longrightarrow>
      vb2_dc_attach_dmabuf env conf dbuf sz dir = (Inl (Errno (- EFAULT)), []))
   \<and> (\<forall>buf evs. vb2_dc_attach_dmabuf env conf dbuf sz dir = (Inr buf, evs) \<longrightarrow>
         sz \<le> dbuf_size dbuf
         \<and> (\<exists>dba. db_attach buf = Some dba \<and> te_dma_buf_attach env = Inr dba)
         \<and> dma_addr buf = 0 \<and> dma_sgt buf = None
         \<and> size_bytes buf = sz \<and> dma_dir buf = dir \<and> dev buf = conf_dev conf
         \<and> evs = [Kzalloc_buf, Dma_buf_attach])
   \<and> (\<forall>dba. sz \<le> dbuf_size dbuf \<and> te_kzalloc_buf env \<and> te_dma_buf_attach env = Inr dba \<longrightarrow>
         fst (vb2_dc_attach_dmabuf env conf dbuf sz dir) =
           Inr (zeroed_buf\<lparr>dev := conf_dev conf, dma_dir := dir, size_bytes := sz,
                  db_attach := Some dba\<rparr>))"
  by (auto simp: vb2_dc_attach_dmabuf_def zeroed_buf_def split: sum.splits if_splits)

text \<open>
  The theorem at a shared buffer of 8192 bytes: a request of 8192 bytes gives the attached
  example buffer, a request of 8193 bytes fails.
\<close>

theorem attach_dmabuf_checks_size_witness:
  "vb2_dc_attach_dmabuf \<lparr>te_kzalloc_buf = True, te_dma_buf_attach = Inr example_attachment\<rparr>
     \<lparr>conf_dev = Some 0\<rparr> \<lparr>dbuf_size = 8192, dbuf_flags = 0\<rparr> 8192 DMA_FROM_DEVICE =
     (Inr attached_buf, [Kzalloc_buf, Dma_buf_attach])
   \<and> vb2_dc_attach_dmabuf \<lparr>te_kzalloc_buf = True, te_dma_buf_attach = Inr example_attachment\<rparr>
     \<lparr>conf_dev = Some 0\<rparr> \<lparr>dbuf_size = 8192, dbuf_flags = 0\<rparr> 8193 DMA_FROM_DEVICE =
     (Inl (Errno (- EFAULT)), [])"
proof -
  let ?env = "\<lparr>te_kzalloc_buf = True, te_dma_buf_attach = Inr example_attachment\<rparr>"
  let ?dbuf = "\<lparr>dbuf_size = 8192, dbuf_flags = 0\<rparr>"
  have small: "dbuf_size ?dbuf < (8193 :: ulong)" by simp
  have 1: "vb2_dc_attach_dmabuf ?env \<lparr>conf_dev = Some 0\<rparr> ?dbuf 8193 DMA_FROM_DEVICE =
        (Inl (Errno (- EFAULT)), [])"
    using attach_dmabuf_checks_size [of ?dbuf 8193 ?env] small by blast
  have 2: "vb2_dc_attach_dmabuf ?env \<lparr>conf_dev = Some 0\<rparr> ?dbuf 8192 DMA_FROM_DEVICE =
        (Inr attached_buf, [Kzalloc_buf, Dma_buf_attach])"
    by (simp add: vb2_dc_attach_dmabuf_def attached_buf_def)
  from 1 2 show ?thesis by simp
qed

text \<open>
  The claim as it was stated (an undersized shared buffer is refused with \<open>-EINVAL\<close>) fails
  for a shared buffer of 4096 bytes and a request of 8192: the error is \<open>-EFAULT\<close>.
\<close>

theorem attach_undersized_counterexample:
  "vb2_dc_attach_dmabuf \<lparr>te_kzalloc_buf = True, te_dma_buf_attach = Inr example_attachment\<rparr>
     \<lparr>conf_dev = Some 0\<rparr> \<lparr>dbuf_size = 4096, dbuf_flags = 0\<rparr> 8192 DMA_FROM_DEVICE =
     (Inl (Errno (- EFAULT)), [])
   \<and> Errno (- EFAULT) \<noteq> Errno (- EINVAL)"
  by (simp add: vb2_dc_attach_dmabuf_def EFAULT_def EINVAL_def)

subsection \<open>Mapping on the exporter's side\<close>

text \<open>
  Claim C5. \<^verbatim>\<open>vb2_dc_dmabuf_ops_map\<close>, called for the direction the attachment is cached
  for, returns the cached table, changes nothing and asks for no translation: the result
  is the same whatever \<^verbatim>\<open>dma_map_sg\<close> would return. Called for another direction, it first
  releases the previous device mapping, if there is one (the cached direction is then
  \<open>DMA_NONE\<close>), and then maps the table for the new direction: it returns the fresh table and
  caches the new direction, or fails with \<open>-EIO\<close> (the cached direction staying
  \<open>DMA_NONE\<close>) when nothing could be mapped. After a successful map, a map for the same
  direction returns the same table again and does nothing.
\<close>

theorem exporter_map_cached_or_fresh:
  "(att_dma_dir attach = dir \<longrightarrow>
      (\<forall>env. vb2_dc_dmabuf_ops_map env attach dir = (Inr (att_sgt attach), attach, [])))
   \<and> (att_dma_dir attach \<noteq> dir \<longrightarrow>
        (let released = (if att_dma_dir attach = DMA_NONE then []
                         else [Dma_unmap_sg (att_dma_dir attach)]);
             fresh = (att_sgt attach)\<lparr>sgl := snd (me_dma_map_sg env),
                                       nents := word_of_int (fst (me_dma_map_sg env))\<rparr>
         in vb2_dc_dmabuf_ops_map env attach dir =
              (if nents fresh = 0
               then (Inl (Errno (- EIO)), \<lparr>att_sgt = fresh, att_dma_dir = DMA_NONE\<rparr>, released)
               else (Inr fresh, \<lparr>att_sgt = fresh, att_dma_dir = dir\<rparr>,
                     released @ [Dma_map_sg dir]))))
   \<and> (\<forall>t attach' evs env'.
         vb2_dc_dmabuf_ops_map env attach dir = (Inr t, attach', evs) \<longrightarrow>
         vb2_dc_dmabuf_ops_map env' attach' dir = (Inr t, attach', []))"
proof (intro conjI impI allI)
  fix env'
  assume "att_dma_dir attach = dir"
  then show "vb2_dc_dmabuf_ops_map env' attach dir = (Inr (att_sgt attach), attach, [])"
    by (simp add: vb2_dc_dmabuf_ops_map_def)
next
  assume "att_dma_dir attach \<noteq> dir"
  then show "let released = (if att_dma_dir attach = DMA_NONE then []
                         else [Dma_unmap_sg (att_dma_dir attach)]);
             fresh = (att_sgt attach)\<lparr>sgl := snd (me_dma_map_sg env),
                                       nents := word_of_int (fst (me_dma_map_sg env))\<rparr>
         in vb2_dc_dmabuf_ops_map env attach dir =
              (if nents fresh = 0
               then (Inl (Errno (- EIO)), \<lparr>att_sgt = fresh, att_dma_dir = DMA_NONE\<rparr>, released)
               else (Inr fresh, \<lparr>att_sgt = fresh, att_dma_dir = dir\<rparr>,
                     released @ [Dma_map_sg dir]))"
    by (cases attach; cases "me_dma_map_sg env")
       (simp add: vb2_dc_dmabuf_ops_map_def Let_def)
next
  fix t attach' evs env'
  assume "vb2_dc_dmabuf_ops_map env attach dir = (Inr t, attach', evs)"
  then have "att_dma_dir attach' = dir \<and> att_sgt attach' = t"
    by (cases "me_dma_map_sg env")
       (auto simp: vb2_dc_dmabuf_ops_map_def Let_def split: if_splits)
  then show "vb2_dc_dmabuf_ops_map env' attach' dir = (Inr t, attach', [])"
    by (simp add: vb2_dc_dmabuf_ops_map_def)
qed

text \<open>
  The theorem at the example cache, which is mapped for \<open>DMA_TO_DEVICE\<close>: a map for
  \<open>DMA_TO_DEVICE\<close> returns the cached table; a map for \<open>DMA_FROM_DEVICE\<close> unmaps, maps
  anew and returns the new table.
\<close>

theorem exporter_map_cached_or_fresh_witness:
  "vb2_dc_dmabuf_ops_map \<lparr>me_dma_map_sg = (0, [])\<rparr> example_attach_cache DMA_TO_DEVICE =
     (Inr example_table, example_attach_cache, [])
   \<and> vb2_dc_dmabuf_ops_map \<lparr>me_dma_map_sg = (1, [seg 65536 8192])\<rparr> example_attach_cache
        DMA_FROM_DEVICE =
     (Inr \<lparr>sgl = [seg 65536 8192], nents = 1, orig_nents = 2\<rparr>,
      \<lparr>att_sgt = \<lparr>sgl = [seg 65536 8192], nents = 1, orig_nents = 2\<rparr>,
       att_dma_dir = DMA_FROM_DEVICE\<rparr>,
      [Dma_unmap_sg DMA_TO_DEVICE, Dma_map_sg DMA_FROM_DEVICE])"
proof -
  have same: "att_dma_dir example_attach_cache = DMA_TO_DEVICE"
    and other: "att_dma_dir example_attach_cache \<noteq> DMA_FROM_DEVICE"
    by (simp_all add: example_attach_cache_def)
  have 1: "vb2_dc_dmabuf_ops_map \<lparr>me_dma_map_sg = (0, [])\<rparr> example_attach_cache DMA_TO_DEVICE =
     (Inr example_table, example_attach_cache, [])"
    using exporter_map_cached_or_fresh
            [of example_attach_cache DMA_TO_DEVICE "\<lparr>me_dma_map_sg = (0, [])\<rparr>"] same
    by (simp add: example_attach_cache_def)
  have 2: "vb2_dc_dmabuf_ops_map \<lparr>me_dma_map_sg = (1, [seg 65536 8192])\<rparr> example_attach_cache
        DMA_FROM_DEVICE =
     (Inr \<lparr>sgl = [seg 65536 8192], nents = 1, orig_nents = 2\<rparr>,
      \<lparr>att_sgt = \<lparr>sgl = [seg 65536 8192], nents = 1, orig_nents = 2\<rparr>,
       att_dma_dir = DMA_FROM_DEVICE\<rparr>,
      [Dma_unmap_sg DMA_TO_DEVICE, Dma_map_sg DMA_FROM_DEVICE])"
    using exporter_map_cached_or_fresh
            [of example_attach_cache DMA_FROM_DEVICE "\<lparr>me_dma_map_sg = (1, [seg 65536 8192])\<rparr>"]
          other
    by (simp add: example_attach_cache_def example_table_def Let_def)
  from 1 2 show ?thesis by simp
qed

subsection \<open>Export and release\<close>

text \<open>A successful export caches the base table and adds one reference; nothing else.\<close>

lemma get_dmabuf_success:
  assumes "export_succeeds env buf"
  shows "\<exists>dbuf base. vb2_dc_get_dmabuf env buf flags =
           (Some dbuf, buf\<lparr>sgt_base := Some base, refcount := refcount buf + 1\<rparr>,
            (if sgt_base buf = None then [Kmalloc_sgt, Dma_get_sgtable] else []) @ [Dma_buf_export])"
proof (cases "sgt_base buf")
  case None
  obtain ret t where x: "xe_dma_get_sgtable env = (ret, t)" by (cases "xe_dma_get_sgtable env")
  from assms None x have "xe_kmalloc_sgt env" "0 \<le> ret" "xe_dma_buf_export env"
    by (simp_all add: export_succeeds_def)
  with None x have "vb2_dc_get_dmabuf env buf flags =
           (Some \<lparr>dbuf_size = size_bytes buf, dbuf_flags = flags\<rparr>,
            buf\<lparr>sgt_base := Some t, refcount := refcount buf + 1\<rparr>,
            [Kmalloc_sgt, Dma_get_sgtable] @ [Dma_buf_export])"
    by (simp add: vb2_dc_get_dmabuf_def vb2_dc_get_base_sgt_def Let_def)
  with None show ?thesis by auto
next
  case (Some y)
  then have same: "buf\<lparr>sgt_base := Some y\<rparr> = buf" by simp
  from assms have "xe_dma_buf_export env" by (simp add: export_succeeds_def)
  with Some have "vb2_dc_get_dmabuf env buf flags =
           (Some \<lparr>dbuf_size = size_bytes buf, dbuf_flags = flags\<rparr>,
            buf\<lparr>sgt_base := Some y, refcount := refcount buf + 1\<rparr>,
            [Dma_buf_export])"
    by (simp add: vb2_dc_get_dmabuf_def Let_def)
  with Some show ?thesis by auto
qed

lemma get_dmabuf_refcount:
  "vb2_dc_get_dmabuf env buf flags = (Some dbuf, buf1, evs) \<Longrightarrow>
   refcount buf1 = refcount buf + 1"
  by (cases "xe_dma_get_sgtable env")
     (auto simp: vb2_dc_get_dmabuf_def vb2_dc_get_base_sgt_def Let_def split: if_splits)

text \<open>
  The release of a reference that is not the last one takes one reference off and leaves
  the buffer alive; the release of the last one frees the buffer.
\<close>

lemma release_live:
  "refcount buf \<noteq> 1 \<Longrightarrow>
   vb2_dc_dmabuf_ops_release buf = (Some (buf\<lparr>refcount := refcount buf - 1\<rparr>), [])"
  by (simp add: vb2_dc_dmabuf_ops_release_def vb2_dc_put_def Let_def)

lemma release_refcount:
  "vb2_dc_dmabuf_ops_release buf = (Some buf1, evs) \<Longrightarrow> refcount buf1 = refcount buf - 1"
  by (auto simp: vb2_dc_dmabuf_ops_release_def vb2_dc_put_def Let_def split: if_splits)

lemma release_last:
  "(\<exists>evs. vb2_dc_dmabuf_ops_release buf = (None, evs)) \<longleftrightarrow> refcount buf = 1"
  by (auto simp: vb2_dc_dmabuf_ops_release_def vb2_dc_put_def Let_def)

lemma export_release_round:
  assumes "refcount buf \<noteq> 0" "export_succeeds env buf"
  shows "\<exists>base. export_release_rounds (env # envs) flags buf =
           export_release_rounds envs flags (buf\<lparr>sgt_base := Some base\<rparr>)"
proof -
  from get_dmabuf_success [OF assms(2), of flags] obtain dbuf base where
    g: "vb2_dc_get_dmabuf env buf flags =
           (Some dbuf, buf\<lparr>sgt_base := Some base, refcount := refcount buf + 1\<rparr>,
            (if sgt_base buf = None then [Kmalloc_sgt, Dma_get_sgtable] else []) @ [Dma_buf_export])"
    by blast
  let ?b1 = "buf\<lparr>sgt_base := Some base, refcount := refcount buf + 1\<rparr>"
  from assms(1) have "refcount ?b1 \<noteq> 1" by simp
  from release_live [OF this] have
    "vb2_dc_dmabuf_ops_release ?b1 = (Some (buf\<lparr>sgt_base := Some base\<rparr>), [])"
    by simp
  with g show ?thesis by (intro exI [of _ base]) simp
qed

lemma export_release_rounds_refcount:
  "refcount buf \<noteq> 0 \<Longrightarrow> \<forall>env \<in> set envs. export_succeeds env buf \<Longrightarrow>
   \<exists>buf'. export_release_rounds envs flags buf = Some buf' \<and> refcount buf' = refcount buf
          \<and> buf' = buf\<lparr>sgt_base := sgt_base buf'\<rparr>"
proof (induction envs arbitrary: buf)
  case Nil
  then show ?case by simp
next
  case (Cons env envs)
  from Cons.prems have s: "export_succeeds env buf" by simp
  from export_release_round [OF Cons.prems(1) s, of envs flags] obtain base where
    r: "export_release_rounds (env # envs) flags buf =
          export_release_rounds envs flags (buf\<lparr>sgt_base := Some base\<rparr>)"
    by blast
  let ?b = "buf\<lparr>sgt_base := Some base\<rparr>"
  from Cons.prems have 1: "refcount ?b \<noteq> 0" by simp
  from Cons.prems(2) have 2: "\<forall>e \<in> set envs. export_succeeds e ?b"
    by (simp add: export_succeeds_def)
  from Cons.IH [OF 1 2] obtain buf' where
    b: "export_release_rounds envs flags ?b = Some buf'" "refcount buf' = refcount ?b"
       "buf' = ?b\<lparr>sgt_base := sgt_base buf'\<rparr>"
    by blast
  from b(3) have "buf' = buf\<lparr>sgt_base := sgt_base buf'\<rparr>" by simp
  with r b(1,2) show ?case by simp
qed

text \<open>
  Claim C6. For every buffer with the reference count \<open>r\<close>: a successful export makes
  the count exactly \<open>r + 1\<close>; a release of the exported handle that leaves the buffer alive
  makes it exactly \<open>r - 1\<close>, and the release frees the buffer exactly when the count was 1;
  and after any number of successful exports, each followed by the release of its handle, a
  live buffer (\<open>r\<close> not 0) is still there with the count \<open>r\<close> again, changed in nothing
  but the cached base table. (The counter is the 32-bit \<^verbatim>\<open>atomic_t\<close>; \<open>+\<close> and \<open>-\<close>
  are its arithmetic.)
\<close>

theorem export_release_balance:
  "(\<forall>dbuf buf1 evs. vb2_dc_get_dmabuf env buf flags = (Some dbuf, buf1, evs) \<longrightarrow>
       refcount buf1 = refcount buf + 1)
   \<and> (\<forall>buf1 evs. vb2_dc_dmabuf_ops_release buf = (Some buf1, evs) \<longrightarrow>
       refcount buf1 = refcount buf - 1)
   \<and> ((\<exists>evs. vb2_dc_dmabuf_ops_release buf = (None, evs)) \<longleftrightarrow> refcount buf = 1)
   \<and> (refcount buf \<noteq> 0 \<and> (\<forall>e \<in> set envs. export_succeeds e buf) \<longrightarrow>
       (\<exists>buf'. export_release_rounds envs flags buf = Some buf'
              \<and> refcount buf' = refcount buf \<and> buf' = buf\<lparr>sgt_base := sgt_base buf'\<rparr>))"
  using get_dmabuf_refcount [of env buf flags] release_refcount [of buf]
        release_last [of buf] export_release_rounds_refcount [of buf envs flags]
  by blast

text \<open>
  The theorem at a freshly allocated buffer (count 1): an export makes the count 2, and
  after three rounds of export and release the count is 1 again.
\<close>

theorem export_release_balance_witness:
  "export_release_rounds [export_ok_env, export_ok_env, export_ok_env] 0 allocated_buf =
     Some (allocated_buf\<lparr>sgt_base := Some example_table\<rparr>)
   \<and> refcount (allocated_buf\<lparr>sgt_base := Some example_table\<rparr>) = refcount allocated_buf
   \<and> fst (snd (vb2_dc_get_dmabuf export_ok_env allocated_buf 0)) =
       allocated_buf\<lparr>sgt_base := Some example_table, refcount := 2\<rparr>"
proof -
  let ?envs = "[export_ok_env, export_ok_env, export_ok_env]"
  have live: "refcount allocated_buf \<noteq> 0" by (simp add: allocated_buf_def)
  have ok: "\<forall>e \<in> set ?envs. export_succeeds e allocated_buf"
    by (simp add: export_succeeds_def export_ok_env_def)
  from export_release_balance [of export_ok_env allocated_buf 0 ?envs] live ok
  obtain buf' where
    b: "export_release_rounds ?envs 0 allocated_buf = Some buf'"
       "refcount buf' = refcount allocated_buf"
    by blast
  have e: "vb2_dc_get_dmabuf export_ok_env allocated_buf 0 =
     (Some \<lparr>dbuf_size = 8192, dbuf_flags = 0\<rparr>,
      allocated_buf\<lparr>sgt_base := Some example_table, refcount := 2\<rparr>,
      [Kmalloc_sgt, Dma_get_sgtable, Dma_buf_export])"
    by (simp add: vb2_dc_get_dmabuf_def vb2_dc_get_base_sgt_def export_ok_env_def
                  allocated_buf_def zeroed_buf_def Let_def)
  have c: "export_release_rounds ?envs 0 allocated_buf =
     Some (allocated_buf\<lparr>sgt_base := Some example_table\<rparr>)"
    by (simp add: vb2_dc_get_dmabuf_def vb2_dc_get_base_sgt_def export_ok_env_def
                  vb2_dc_dmabuf_ops_release_def vb2_dc_put_def
                  allocated_buf_def zeroed_buf_def Let_def)
  from b c e show ?thesis by simp
qed

subsection \<open>Pinning a user region\<close>

lemma unat_pow2: "k < 64 \<Longrightarrow> unat (2 ^ k :: ulong) = 2 ^ k"
proof -
  assume k: "k < 64"
  have "(2 ^ k :: ulong) = of_nat (2 ^ k)" by simp
  then have "unat (2 ^ k :: ulong) = take_bit 64 (2 ^ k :: nat)"
    by (simp only: unsigned_of_nat) simp
  also from k have "\<dots> = 2 ^ k" by (simp add: take_bit_nat_eq_self_iff)
  finally show ?thesis .
qed

lemma IS_ALIGNED_pow2:
  assumes "k < 64"
  shows "IS_ALIGNED x (2 ^ k) \<longleftrightarrow> unat (2 ^ k :: ulong) dvd unat x"
proof -
  have "IS_ALIGNED x (2 ^ k) \<longleftrightarrow> x AND mask k = 0"
    by (simp add: IS_ALIGNED_def mask_eq_decr_exp)
  also have "\<dots> \<longleftrightarrow> 2 ^ k dvd unat x" by (simp add: and_mask_dvd_nat)
  finally show ?thesis by (simp add: unat_pow2 [OF assms])
qed

lemma IS_ALIGNED_or:
  "IS_ALIGNED (x OR y) a \<longleftrightarrow> IS_ALIGNED x a \<and> IS_ALIGNED y a"
  by (simp add: IS_ALIGNED_def word_ao_dist or_eq_0_iff)

text \<open>
  Claim C7. On a platform whose cache alignment is a power of two (it always is), every
  call of \<^verbatim>\<open>vb2_dc_get_userptr\<close> whose address or size is not a multiple of the alignment,
  or whose size is zero, fails with \<open>-EINVAL\<close> and acquires nothing: the log is empty, so
  no descriptor, no pinned frames and no segment table have been created.
\<close>

theorem get_userptr_rejects_misaligned:
  assumes "dma_get_cache_alignment plat = 2 ^ k" "k < 64"
    and "\<not> unat (dma_get_cache_alignment plat) dvd unat uaddr
         \<or> \<not> unat (dma_get_cache_alignment plat) dvd unat sz \<or> sz = 0"
  shows "vb2_dc_get_userptr plat env conf uaddr sz dir = (Inl (Errno (- EINVAL)), [])"
proof (cases "sz = 0")
  case True
  then show ?thesis by (simp add: vb2_dc_get_userptr_def)
next
  case False
  with assms(3) have "\<not> (unat (2 ^ k :: ulong) dvd unat uaddr \<and> unat (2 ^ k :: ulong) dvd unat sz)"
    by (auto simp: assms(1))
  then have "\<not> (IS_ALIGNED uaddr (2 ^ k) \<and> IS_ALIGNED sz (2 ^ k))"
    by (simp add: IS_ALIGNED_pow2 [OF assms(2)])
  then have "\<not> IS_ALIGNED (uaddr OR sz) (dma_get_cache_alignment plat)"
    by (simp add: assms(1) IS_ALIGNED_or)
  then show ?thesis by (simp add: vb2_dc_get_userptr_def)
qed

text \<open>
  The theorem at the alignment 8: the address 3 is refused, and so is the size 0.
\<close>

theorem get_userptr_rejects_misaligned_witness:
  "vb2_dc_get_userptr example_platform (pin_env 0 (2, [seg 4096 4096, seg 8192 4096]))
     example_conf 3 4096 DMA_FROM_DEVICE = (Inl (Errno (- EINVAL)), [])
   \<and> vb2_dc_get_userptr example_platform (pin_env 0 (2, [seg 4096 4096, seg 8192 4096]))
     example_conf 4096 0 DMA_FROM_DEVICE = (Inl (Errno (- EINVAL)), [])"
proof -
  have a: "dma_get_cache_alignment example_platform = 2 ^ 3" "(3 :: nat) < 64"
    by (simp_all add: example_platform_def)
  have m: "\<not> unat (dma_get_cache_alignment example_platform) dvd unat (3 :: ulong)
         \<or> \<not> unat (dma_get_cache_alignment example_platform) dvd unat (4096 :: ulong)
         \<or> (4096 :: ulong) = 0"
    by (simp add: example_platform_def)
  have z: "\<not> unat (dma_get_cache_alignment example_platform) dvd unat (4096 :: ulong)
         \<or> \<not> unat (dma_get_cache_alignment example_platform) dvd unat (0 :: ulong)
         \<or> (0 :: ulong) = 0"
    by simp
  from get_userptr_rejects_misaligned [OF a m] get_userptr_rejects_misaligned [OF a z]
  show ?thesis by simp
qed

text \<open>Logs of the error paths are rolled back.\<close>

lemma rolled_back_simps:
  "rolled_back []"
  "rolled_back [Kzalloc_buf, Kfree_buf]"
  "rolled_back [Kzalloc_buf, Create_framevec, Destroy_framevec, Kfree_buf]"
  "rolled_back [Kzalloc_buf, Create_framevec, Kzalloc_sgt, Kfree_sgt, Destroy_framevec, Kfree_buf]"
  "rolled_back [Kzalloc_buf, Create_framevec, Kzalloc_sgt, Sg_alloc_table,
                Sg_free_table, Kfree_sgt, Destroy_framevec, Kfree_buf]"
  "rolled_back [Kzalloc_buf, Create_framevec, Kzalloc_sgt, Sg_alloc_table, Dma_map_sg dir,
                Dma_unmap_sg dir, Sg_free_table, Kfree_sgt, Destroy_framevec, Kfree_buf]"
  by (simp_all add: rolled_back_def)

lemmas fail_labels = fail_buf_def fail_pfnvec_def fail_sgt_def fail_sgt_init_def fail_map_sg_def

lemmas outcome_defs = outcome_direct_def outcome_table_def outcome_contiguity_violation_def
  outcome_early_failure_def acquired_for_table_def pinned_frames_def direct_path_def
  table_mapped_def contiguous_for_def

text \<open>
  \<^verbatim>\<open>vb2_dc_get_userptr\<close> after its two checks, with the labels' logs written out and the
  table named.
\<close>

lemma get_userptr_passes_checks:
  assumes "IS_ALIGNED (uaddr OR sz) (dma_get_cache_alignment plat)" "sz \<noteq> 0"
  shows "vb2_dc_get_userptr plat env conf uaddr sz dir =
     (if \<not> ue_kzalloc_buf env then (Inl (Errno (- ENOMEM)), [])
      else case ue_create_framevec env of
          Inl e \<Rightarrow> (Inl (Errno e), [Kzalloc_buf, Kfree_buf])
        | Inr fv \<Rightarrow>
            if ue_frame_vector_to_pages env < 0 then
              (if \<not> pfns_contiguous (frame_pfns fv)
               then (Inl (Errno (ue_frame_vector_to_pages env)),
                     [Kzalloc_buf, Create_framevec, Destroy_framevec, Kfree_buf])
               else case frame_pfns fv of
                 [] \<Rightarrow> (Inl Oops, [Kzalloc_buf, Create_framevec])
               | n0 # _ \<Rightarrow>
                   (Inr (zeroed_buf\<lparr>dev := conf_dev conf, dma_dir := dir, vec := Some fv,
                           dma_addr := vb2_dc_pfn_to_dma plat (conf_dev conf) n0,
                           size_bytes := sz\<rparr>),
                    [Kzalloc_buf, Create_framevec]))
            else if \<not> ue_kzalloc_sgt env
            then (Inl (Errno (- ENOMEM)),
                  [Kzalloc_buf, Create_framevec, Destroy_framevec, Kfree_buf])
            else if fst (ue_sg_alloc_table_from_pages env) \<noteq> 0
            then (Inl (Errno (fst (ue_sg_alloc_table_from_pages env))),
                  [Kzalloc_buf, Create_framevec, Kzalloc_sgt, Kfree_sgt, Destroy_framevec,
                   Kfree_buf])
            else if nents (mapped_table env) = 0
            then (Inl (Errno (- EIO)),
                  [Kzalloc_buf, Create_framevec, Kzalloc_sgt, Sg_alloc_table,
                   Sg_free_table, Kfree_sgt, Destroy_framevec, Kfree_buf])
            else case vb2_dc_get_contiguous_size (mapped_table env) of
                Inl fault \<Rightarrow> (Inl fault, acquired_for_table dir)
              | Inr contig_size \<Rightarrow>
                  if contig_size < sz
                  then (Inl (Errno (- EFAULT)),
                        acquired_for_table dir
                        @ [Dma_unmap_sg dir, Sg_free_table, Kfree_sgt, Destroy_framevec,
                           Kfree_buf])
                  else (case sgl (mapped_table env) of
                          [] \<Rightarrow> (Inl Oops, acquired_for_table dir)
                        | s0 # _ \<Rightarrow>
                            (Inr (zeroed_buf\<lparr>dev := conf_dev conf, dma_dir := dir,
                                    vec := Some fv, dma_addr := dma_address s0,
                                    dma_sgt := Some (mapped_table env), size_bytes := sz\<rparr>),
                             acquired_for_table dir)))"
  using assms
  by (cases "ue_sg_alloc_table_from_pages env"; cases "ue_dma_map_sg_attrs env")
     (simp add: vb2_dc_get_userptr_def mapped_table_def acquired_for_table_def fail_labels
                Let_def
           split: sum.splits list.splits)

text \<open>
  Claim C3, as amended. For every call of \<^verbatim>\<open>vb2_dc_get_userptr\<close> with an aligned address
  and size and a size that is not zero (the kernel's answers being well formed), exactly
  one of four outcomes holds: (1) page resolution fails, the frame numbers increase by one
  each, and the returned buffer has a single device address made from the first frame and
  no segment table; (2) the pages resolve, the table is built and mapped, its contiguous
  size is at least the size, and the returned buffer carries that table; (3) the contiguous
  size is below the size and the call fails with \<open>-EFAULT\<close>, having unmapped the table,
  freed it and released the frames, in the reverse order of their acquisition; or (4) the
  call fails earlier, with \<open>-ENOMEM\<close> (no descriptor, or no storage for the table),
  \<open>-EIO\<close> (no entry mapped) or the error code passed on from the creation of the frame
  vector, from page resolution (the frames not being contiguous) or from the construction
  of the table, having released what it had acquired, in reverse order. A buffer is
  returned exactly when the direct path is open or the mapped table covers the size, so no
  partially valid buffer is ever returned.
\<close>

theorem get_userptr_outcomes:
  assumes "IS_ALIGNED (uaddr OR sz) (dma_get_cache_alignment plat)" "sz \<noteq> 0"
    and "userptr_env_wf env"
  shows "length (filter (\<lambda>outcome. outcome (vb2_dc_get_userptr plat env conf uaddr sz dir))
                   (pin_outcomes plat env sz dir)) = 1
         \<and> (\<not> isl (fst (vb2_dc_get_userptr plat env conf uaddr sz dir)) \<longleftrightarrow>
              direct_path env \<or> (table_mapped env \<and> contiguous_for env sz))"
proof -
  note flat = get_userptr_passes_checks [OF assms(1,2), of env conf dir]
  show ?thesis
  proof (cases "ue_kzalloc_buf env")
    case False
    with flat show ?thesis
      by (simp add: pin_outcomes_def outcome_defs rolled_back_simps)
  next
    case kz: True
    show ?thesis
    proof (cases "ue_create_framevec env")
      case (Inl e)
      with kz flat show ?thesis
        by (simp add: pin_outcomes_def outcome_defs rolled_back_simps)
    next
      case (Inr fv)
      with assms(3) obtain n0 rest where pf: "frame_pfns fv = n0 # rest"
        by (cases "frame_pfns fv") (auto simp: userptr_env_wf_def)
      show ?thesis
      proof (cases "ue_frame_vector_to_pages env < 0")
        case True
        with kz Inr pf flat show ?thesis
          by (cases "pfns_contiguous (frame_pfns fv)")
             (simp_all add: pin_outcomes_def outcome_defs rolled_back_simps zeroed_buf_def)
      next
        case pages: False
        show ?thesis
        proof (cases "ue_kzalloc_sgt env \<and> fst (ue_sg_alloc_table_from_pages env) = 0
                      \<and> nents (mapped_table env) \<noteq> 0")
          case False
          with kz Inr pages flat show ?thesis
            by (auto simp: pin_outcomes_def outcome_defs rolled_back_simps)
        next
          case True
          with assms(3) have ne: "sgl (mapped_table env) \<noteq> []"
            and le: "unat (nents (mapped_table env)) \<le> length (sgl (mapped_table env))"
            by (simp_all add: userptr_env_wf_def)
          from get_contiguous_size_refines [OF ne le] obtain c where
            c: "vb2_dc_get_contiguous_size (mapped_table env) = Inr c" by blast
          from ne obtain s0 more where s0: "sgl (mapped_table env) = s0 # more"
            by (cases "sgl (mapped_table env)") auto
          from kz Inr pages True c s0 flat show ?thesis
            by (cases "c < sz")
               (simp_all add: pin_outcomes_def outcome_defs rolled_back_simps zeroed_buf_def)
        qed
      qed
    qed
  qed
qed

text \<open>The example requests and what they return.\<close>

lemma pin_env_fields:
  "ue_kzalloc_buf (pin_env r m) = True"
  "ue_create_framevec (pin_env r m) = Inr \<lparr>frame_pfns = [16, 17]\<rparr>"
  "ue_frame_vector_to_pages (pin_env r m) = r"
  "ue_kzalloc_sgt (pin_env r m) = True"
  "fst (ue_sg_alloc_table_from_pages (pin_env r m)) = 0"
  "mapped_table (pin_env r (c, chain)) = \<lparr>sgl = chain, nents = word_of_int c, orig_nents = 2\<rparr>"
  by (simp_all add: pin_env_def mapped_table_def)

lemma pin_env_wf:
  "userptr_env_wf (pin_env r (2, [a, b]))" "userptr_env_wf (pin_env r (0, chain))"
  by (simp_all add: userptr_env_wf_def pin_env_fields)

lemma pin_aligned: "IS_ALIGNED (65536 OR 8192) (dma_get_cache_alignment example_platform)"
  by (simp add: IS_ALIGNED_def example_platform_def)

lemma pin_results:
  "vb2_dc_get_userptr example_platform (pin_env 0 (2, [seg 4096 4096, seg 65536 4096]))
     example_conf 65536 8192 DMA_FROM_DEVICE =
     (Inl (Errno (- EFAULT)),
      [Kzalloc_buf, Create_framevec, Kzalloc_sgt, Sg_alloc_table, Dma_map_sg DMA_FROM_DEVICE,
       Dma_unmap_sg DMA_FROM_DEVICE, Sg_free_table, Kfree_sgt, Destroy_framevec, Kfree_buf])"
  "vb2_dc_get_userptr example_platform (pin_env 0 (2, [seg 4096 4096, seg 8192 4096]))
     example_conf 65536 8192 DMA_FROM_DEVICE =
     (Inr (zeroed_buf\<lparr>dev := Some 0, dma_dir := DMA_FROM_DEVICE,
             vec := Some \<lparr>frame_pfns = [16, 17]\<rparr>, dma_addr := 4096,
             dma_sgt := Some example_table, size_bytes := 8192\<rparr>),
      [Kzalloc_buf, Create_framevec, Kzalloc_sgt, Sg_alloc_table, Dma_map_sg DMA_FROM_DEVICE])"
  "vb2_dc_get_userptr example_platform (pin_env (- EFAULT) (0, [])) example_conf
     65536 8192 DMA_FROM_DEVICE =
     (Inr (zeroed_buf\<lparr>dev := Some 0, dma_dir := DMA_FROM_DEVICE,
             vec := Some \<lparr>frame_pfns = [16, 17]\<rparr>, dma_addr := 65536,
             size_bytes := 8192\<rparr>),
      [Kzalloc_buf, Create_framevec])"
  "vb2_dc_get_userptr example_platform (pin_env 0 (0, [seg 0 0, seg 0 0])) example_conf
     65536 8192 DMA_FROM_DEVICE =
     (Inl (Errno (- EIO)),
      [Kzalloc_buf, Create_framevec, Kzalloc_sgt, Sg_alloc_table,
       Sg_free_table, Kfree_sgt, Destroy_framevec, Kfree_buf])"
proof -
  have nz: "(8192 :: ulong) \<noteq> 0" by simp
  note flat = get_userptr_passes_checks [OF pin_aligned nz, of _ example_conf DMA_FROM_DEVICE]
  have c1: "vb2_dc_get_contiguous_size
              \<lparr>sgl = [seg 4096 4096, seg 65536 4096], nents = 2, orig_nents = 2\<rparr> = Inr 4096"
    by (simp add: vb2_dc_get_contiguous_size_def seg_def contiguous_scan_numeral)
  have c2: "vb2_dc_get_contiguous_size
              \<lparr>sgl = [seg 4096 4096, seg 8192 4096], nents = 2, orig_nents = 2\<rparr> = Inr 8192"
    by (simp add: vb2_dc_get_contiguous_size_def seg_def contiguous_scan_numeral)
  show "vb2_dc_get_userptr example_platform (pin_env 0 (2, [seg 4096 4096, seg 65536 4096]))
     example_conf 65536 8192 DMA_FROM_DEVICE =
     (Inl (Errno (- EFAULT)),
      [Kzalloc_buf, Create_framevec, Kzalloc_sgt, Sg_alloc_table, Dma_map_sg DMA_FROM_DEVICE,
       Dma_unmap_sg DMA_FROM_DEVICE, Sg_free_table, Kfree_sgt, Destroy_framevec, Kfree_buf])"
    unfolding flat by (simp add: pin_env_fields c1 acquired_for_table_def)
  show "vb2_dc_get_userptr example_platform (pin_env 0 (2, [seg 4096 4096, seg 8192 4096]))
     example_conf 65536 8192 DMA_FROM_DEVICE =
     (Inr (zeroed_buf\<lparr>dev := Some 0, dma_dir := DMA_FROM_DEVICE,
             vec := Some \<lparr>frame_pfns = [16, 17]\<rparr>, dma_addr := 4096,
             dma_sgt := Some example_table, size_bytes := 8192\<rparr>),
      [Kzalloc_buf, Create_framevec, Kzalloc_sgt, Sg_alloc_table, Dma_map_sg DMA_FROM_DEVICE])"
    unfolding flat
    by (simp add: pin_env_fields c2 acquired_for_table_def example_conf_def example_table_def)
       (simp add: seg_def)
  show "vb2_dc_get_userptr example_platform (pin_env (- EFAULT) (0, [])) example_conf
     65536 8192 DMA_FROM_DEVICE =
     (Inr (zeroed_buf\<lparr>dev := Some 0, dma_dir := DMA_FROM_DEVICE,
             vec := Some \<lparr>frame_pfns = [16, 17]\<rparr>, dma_addr := 65536,
             size_bytes := 8192\<rparr>),
      [Kzalloc_buf, Create_framevec])"
    unfolding flat
    by (simp add: pin_env_fields EFAULT_def example_conf_def example_platform_def)
  show "vb2_dc_get_userptr example_platform (pin_env 0 (0, [seg 0 0, seg 0 0])) example_conf
     65536 8192 DMA_FROM_DEVICE =
     (Inl (Errno (- EIO)),
      [Kzalloc_buf, Create_framevec, Kzalloc_sgt, Sg_alloc_table,
       Sg_free_table, Kfree_sgt, Destroy_framevec, Kfree_buf])"
    unfolding flat by (simp add: pin_env_fields)
qed

text \<open>
  The theorem at a request whose two pages are mapped far apart: exactly one outcome holds,
  and it is the contiguity violation. With other answers of the kernel, the same request
  has the outcomes (2), (1) and (4).
\<close>

theorem get_userptr_outcomes_witness:
  "length (filter (\<lambda>outcome. outcome
       (vb2_dc_get_userptr example_platform (pin_env 0 (2, [seg 4096 4096, seg 65536 4096]))
          example_conf 65536 8192 DMA_FROM_DEVICE))
     (pin_outcomes example_platform (pin_env 0 (2, [seg 4096 4096, seg 65536 4096])) 8192
        DMA_FROM_DEVICE)) = 1
   \<and> outcome_contiguity_violation (pin_env 0 (2, [seg 4096 4096, seg 65536 4096])) 8192
        DMA_FROM_DEVICE
        (vb2_dc_get_userptr example_platform (pin_env 0 (2, [seg 4096 4096, seg 65536 4096]))
           example_conf 65536 8192 DMA_FROM_DEVICE)
   \<and> outcome_table (pin_env 0 (2, [seg 4096 4096, seg 8192 4096])) 8192 DMA_FROM_DEVICE
        (vb2_dc_get_userptr example_platform (pin_env 0 (2, [seg 4096 4096, seg 8192 4096]))
           example_conf 65536 8192 DMA_FROM_DEVICE)
   \<and> outcome_direct example_platform (pin_env (- EFAULT) (0, [])) 8192
        (vb2_dc_get_userptr example_platform (pin_env (- EFAULT) (0, []))
           example_conf 65536 8192 DMA_FROM_DEVICE)
   \<and> outcome_early_failure (pin_env 0 (0, [seg 0 0, seg 0 0])) DMA_FROM_DEVICE
        (vb2_dc_get_userptr example_platform (pin_env 0 (0, [seg 0 0, seg 0 0]))
           example_conf 65536 8192 DMA_FROM_DEVICE)"
proof -
  have nz: "(8192 :: ulong) \<noteq> 0" by simp
  have c1: "vb2_dc_get_contiguous_size
              \<lparr>sgl = [seg 4096 4096, seg 65536 4096], nents = 2, orig_nents = 2\<rparr> = Inr 4096"
    by (simp add: vb2_dc_get_contiguous_size_def seg_def contiguous_scan_numeral)
  have c2: "vb2_dc_get_contiguous_size
              \<lparr>sgl = [seg 4096 4096, seg 8192 4096], nents = 2, orig_nents = 2\<rparr> = Inr 8192"
    by (simp add: vb2_dc_get_contiguous_size_def seg_def contiguous_scan_numeral)
  have 1: "outcome_contiguity_violation (pin_env 0 (2, [seg 4096 4096, seg 65536 4096])) 8192
        DMA_FROM_DEVICE
        (vb2_dc_get_userptr example_platform (pin_env 0 (2, [seg 4096 4096, seg 65536 4096]))
           example_conf 65536 8192 DMA_FROM_DEVICE)"
    unfolding pin_results(1)
    by (simp add: outcome_defs rolled_back_simps pin_env_fields c1)
  have 2: "outcome_table (pin_env 0 (2, [seg 4096 4096, seg 8192 4096])) 8192 DMA_FROM_DEVICE
        (vb2_dc_get_userptr example_platform (pin_env 0 (2, [seg 4096 4096, seg 8192 4096]))
           example_conf 65536 8192 DMA_FROM_DEVICE)"
    unfolding pin_results(2)
    by (simp add: outcome_defs pin_env_fields c2)
       (simp add: example_table_def seg_def)
  have 3: "outcome_direct example_platform (pin_env (- EFAULT) (0, [])) 8192
        (vb2_dc_get_userptr example_platform (pin_env (- EFAULT) (0, []))
           example_conf 65536 8192 DMA_FROM_DEVICE)"
    unfolding pin_results(3)
    by (simp add: outcome_defs pin_env_fields EFAULT_def example_platform_def zeroed_buf_def)
  have 4: "outcome_early_failure (pin_env 0 (0, [seg 0 0, seg 0 0])) DMA_FROM_DEVICE
        (vb2_dc_get_userptr example_platform (pin_env 0 (0, [seg 0 0, seg 0 0]))
           example_conf 65536 8192 DMA_FROM_DEVICE)"
    unfolding pin_results(4)
    by (simp add: outcome_defs rolled_back_simps pin_env_fields)
  from get_userptr_outcomes [OF pin_aligned nz pin_env_wf(1), of 0 "seg 4096 4096" "seg 65536 4096"
          example_conf DMA_FROM_DEVICE, THEN conjunct1] 1 2 3 4
  show ?thesis by (intro conjI)
qed

text \<open>
  The claim as it was stated (the outcome is one of (1), (2) and (3)) fails for an aligned
  request of 8192 bytes for which \<^verbatim>\<open>dma_map_sg_attrs\<close> maps nothing: the call fails with
  \<open>-EIO\<close>, which is none of the three.
\<close>

theorem get_userptr_io_error_counterexample:
  "vb2_dc_get_userptr example_platform (pin_env 0 (0, [seg 0 0, seg 0 0])) example_conf
     65536 8192 DMA_FROM_DEVICE =
     (Inl (Errno (- EIO)),
      [Kzalloc_buf, Create_framevec, Kzalloc_sgt, Sg_alloc_table,
       Sg_free_table, Kfree_sgt, Destroy_framevec, Kfree_buf])
   \<and> IS_ALIGNED (65536 OR 8192) (dma_get_cache_alignment example_platform)
   \<and> \<not> outcome_direct example_platform (pin_env 0 (0, [seg 0 0, seg 0 0])) 8192
        (vb2_dc_get_userptr example_platform (pin_env 0 (0, [seg 0 0, seg 0 0])) example_conf
           65536 8192 DMA_FROM_DEVICE)
   \<and> \<not> outcome_table (pin_env 0 (0, [seg 0 0, seg 0 0])) 8192 DMA_FROM_DEVICE
        (vb2_dc_get_userptr example_platform (pin_env 0 (0, [seg 0 0, seg 0 0])) example_conf
           65536 8192 DMA_FROM_DEVICE)
   \<and> \<not> outcome_contiguity_violation (pin_env 0 (0, [seg 0 0, seg 0 0])) 8192 DMA_FROM_DEVICE
        (vb2_dc_get_userptr example_platform (pin_env 0 (0, [seg 0 0, seg 0 0])) example_conf
           65536 8192 DMA_FROM_DEVICE)"
  unfolding pin_results(4) using pin_aligned
  by (simp add: outcome_defs EIO_def EFAULT_def)

end
